theory Spec2Isabelle
  imports Main
begin

section \<open>Python strings and integers\<close>

text \<open>
  Python's \<open>str\<close> is modelled as \<open>string\<close> and its unbounded \<open>int\<close> as \<open>int\<close>.
  \<open>str_int\<close> is \<open>str(n)\<close> for an integer, which is also what an f-string field
  \<open>{n}\<close> renders: the decimal digits, with a leading minus sign for a negative number.
\<close>

definition digit_char :: "nat \<Rightarrow> char" where
  "digit_char d = ''0123456789'' ! d"

fun str_nat :: "nat \<Rightarrow> string" where
  "str_nat n = (if n < 10 then [digit_char n] else str_nat (n div 10) @ [digit_char (n mod 10)])"

declare str_nat.simps [simp del]

definition str_int :: "int \<Rightarrow> string" where
  "str_int i = (if i < 0 then CHR ''-'' # str_nat (nat (- i)) else str_nat (nat i))"

text \<open>\<open>sep.join(xs)\<close> and \<open>s.split(sep)\<close> for a one-character separator.\<close>

fun join_sep :: "string \<Rightarrow> string list \<Rightarrow> string" where
  "join_sep sep [] = []"
| "join_sep sep [x] = x"
| "join_sep sep (x # y # ys) = x @ sep @ join_sep sep (y # ys)"

fun split_sep :: "char \<Rightarrow> string \<Rightarrow> string list" where
  "split_sep c [] = [[]]"
| "split_sep c (x # xs) =
     (if x = c then [] # split_sep c xs
      else (case split_sep c xs of
              [] \<Rightarrow> [[x]]
            | w # ws \<Rightarrow> (x # w) # ws))"

text \<open>
  \<open>s.title()\<close> on ASCII text: a letter that follows a letter is lowered, any other letter
  is raised, every other character is kept.
\<close>

definition is_lower :: "char \<Rightarrow> bool" where
  "is_lower c = (97 \<le> (of_char c :: nat) \<and> (of_char c :: nat) \<le> 122)"

definition is_upper :: "char \<Rightarrow> bool" where
  "is_upper c = (65 \<le> (of_char c :: nat) \<and> (of_char c :: nat) \<le> 90)"

definition to_upper :: "char \<Rightarrow> char" where
  "to_upper c = (if is_lower c then char_of ((of_char c :: nat) - 32) else c)"

definition to_lower :: "char \<Rightarrow> char" where
  "to_lower c = (if is_upper c then char_of ((of_char c :: nat) + 32) else c)"

fun title_from :: "bool \<Rightarrow> string \<Rightarrow> string" where
  "title_from prev [] = []"
| "title_from prev (c # cs) =
     (if is_lower c \<or> is_upper c
      then (if prev then to_lower c else to_upper c) # title_from True cs
      else c # title_from False cs)"

definition title :: "string \<Rightarrow> string" where
  "title s = title_from False s"

section \<open>pathlib: pure POSIX paths\<close>

text \<open>
  A \<open>PurePosixPath\<close> is its root (empty, one slash or two slashes) and its parts below
  the root. \<open>Path_of s\<close> is \<open>Path(s)\<close>: \<open>splitroot\<close> takes the leading slashes (exactly
  two are kept as two, any other number is one), and the rest is split at the slash with
  empty and \<open>.\<close> components dropped. \<open>truediv p s\<close> is \<open>p / s\<close>: an absolute right
  operand replaces the left one. \<open>str_path\<close> is \<open>str(p)\<close>, \<open>name\<close> is \<open>p.name\<close>.
\<close>

datatype path = Path (proot: string) (pparts: "string list")

definition splitroot :: "string \<Rightarrow> string \<times> string" where
  "splitroot part =
     (if part \<noteq> [] \<and> hd part = CHR ''/''
      then (let stripped = dropWhile (\<lambda>c. c = CHR ''/'') part
            in if length part - length stripped = 2 then (''//'', stripped) else (''/'', stripped))
      else ([], part))"

definition Path_of :: "string \<Rightarrow> path" where
  "Path_of s =
     (if s = [] then Path [] []
      else (let (root, rel) = splitroot s
            in Path root (filter (\<lambda>x. x \<noteq> [] \<and> x \<noteq> ''.'') (split_sep CHR ''/'' rel))))"

definition truediv :: "path \<Rightarrow> string \<Rightarrow> path" where
  "truediv p s =
     (let q = Path_of s
      in if proot q \<noteq> [] then q else Path (proot p) (pparts p @ pparts q))"

definition str_path :: "path \<Rightarrow> string" where
  "str_path p =
     (if proot p = [] \<and> pparts p = [] then ''.''
      else proot p @ join_sep ''/'' (pparts p))"

definition name :: "path \<Rightarrow> string" where
  "name p = (if pparts p = [] then [] else last (pparts p))"

text \<open>
  \<open>p.parent\<close> drops the last part, and a path without parts is its own parent.
  \<open>p.suffix\<close> is the name from its last dot on, unless that dot is the first or the last
  character of the name. \<open>p.with_suffix(s)\<close> replaces the suffix of the name; it raises
  \<open>ValueError\<close> for a path without a name, which is \<open>None\<close> here.
\<close>

definition parent :: "path \<Rightarrow> path" where
  "parent p = (if pparts p = [] then p else Path (proot p) (butlast (pparts p)))"

definition suffix :: "path \<Rightarrow> string" where
  "suffix p =
     (let n = name p; stem = rev (drop 1 (dropWhile (\<lambda>c. c \<noteq> CHR ''.'') (rev n)))
      in if CHR ''.'' \<in> set n \<and> stem \<noteq> [] \<and> last n \<noteq> CHR ''.''
         then drop (length stem) n else [])"

definition with_suffix :: "path \<Rightarrow> string \<Rightarrow> path option" where
  "with_suffix p s =
     (if name p = [] then None
      else Some (Path (proot p)
                   (butlast (pparts p)
                      @ [take (length (name p) - length (suffix p)) (name p) @ s])))"

section \<open>dreambooth\_app\_no\_lora.py\<close>

subsection \<open>Configuration\<close>

text \<open>
  The dataclasses \<open>SharedConfig\<close>, \<open>TrainConfig\<close>, \<open>SweepConfig\<close> and \<open>AppConfig\<close>, with
  the inheritance of the source as record extension. The two float fields
  (\<open>learning_rate\<close>, \<open>guidance_scale\<close>) and the two test-prompt lists are read by none of
  the functions below and are left out.
\<close>

record SharedConfig =
  instance_name :: string
  class_name :: string
  model_name :: string

record TrainConfig = SharedConfig +
  dataset_name :: string
  caption_column :: string
  instance_prompt :: string
  prefix :: string
  postfix :: string
  resolution :: int
  train_batch_size :: int
  rank :: int
  gradient_accumulation_steps :: int
  lr_scheduler :: string
  lr_warmup_steps :: int
  max_train_steps :: int
  checkpointing_steps :: int
  seed :: int

record SweepConfig = TrainConfig +
  train_steps :: "int list"
  ranks :: "int list"

record AppConfig = SharedConfig +
  num_inference_steps :: int

definition SweepConfig_default :: SweepConfig where
  "SweepConfig_default =
     \<lparr> instance_name = ''Heroicon'', class_name = ''style'',
       model_name = ''black-forest-labs/FLUX.1-dev'',
       dataset_name = ''yirenlu/heroicons-subset-25-images'',
       caption_column = ''text'',
       instance_prompt = ''an HCON, in the style of TOK'',
       prefix = [], postfix = [],
       resolution = 512, train_batch_size = 1, rank = 16,
       gradient_accumulation_steps = 1, lr_scheduler = ''constant'',
       lr_warmup_steps = 0, max_train_steps = 2000, checkpointing_steps = 1000,
       seed = 0,
       train_steps = [2000, 3000, 4000], ranks = [8] \<rparr>"

definition AppConfig_default :: AppConfig where
  "AppConfig_default =
     \<lparr> instance_name = ''Heroicon'', class_name = ''style'',
       model_name = ''black-forest-labs/FLUX.1-dev'',
       num_inference_steps = 25 \<rparr>"

definition MODEL_DIR :: string where
  "MODEL_DIR = ''/model''"

definition USE_WANDB :: bool where
  "USE_WANDB = True"

subsection \<open>Sweep generation\<close>

text \<open>
  A configuration mapping is a Python \<open>dict\<close> from key strings to values: an association
  list in insertion order, read with \<open>map_of\<close>. \<open>format_val\<close> is what an f-string field
  renders for a value.
\<close>

datatype pyval = PyInt int | PyStr string | PyPath path

type_synonym config = "(string \<times> pyval) list"

fun format_val :: "pyval \<Rightarrow> string" where
  "format_val (PyInt i) = str_int i"
| "format_val (PyStr s) = s"
| "format_val (PyPath p) = str_path p"

text \<open>\<open>itertools.product(xs, ys)\<close>: the left list varies slowest.\<close>

definition product :: "'a list \<Rightarrow> 'b list \<Rightarrow> ('a \<times> 'b) list" where
  "product xs ys = concat (map (\<lambda>x. map (\<lambda>y. (x, y)) ys) xs)"

text \<open>The dict literal that \<open>generate_sweep_configs\<close> builds for one combination.\<close>

definition sweep_record :: "SweepConfig \<Rightarrow> int \<Rightarrow> int \<Rightarrow> config" where
  "sweep_record sweep_config steps rnk =
     [ (''max_train_steps'', PyInt steps),
       (''rank'', PyInt rnk),
       (''model_name'', PyStr (model_name sweep_config)),
       (''instance_prompt'', PyStr (instance_prompt sweep_config)),
       (''dataset_name'', PyStr (dataset_name sweep_config)),
       (''caption_column'', PyStr (caption_column sweep_config)),
       (''resolution'', PyInt (resolution sweep_config)),
       (''train_batch_size'', PyInt (train_batch_size sweep_config)),
       (''gradient_accumulation_steps'', PyInt (gradient_accumulation_steps sweep_config)),
       (''lr_scheduler'', PyStr (lr_scheduler sweep_config)),
       (''lr_warmup_steps'', PyInt (lr_warmup_steps sweep_config)),
       (''checkpointing_steps'', PyInt (checkpointing_steps sweep_config)),
       (''seed'', PyInt (seed sweep_config)),
       (''output_dir'',
          PyPath (truediv (Path_of MODEL_DIR)
                    (''steps_'' @ str_int steps @ ''_rank_'' @ str_int rnk))) ]"

definition generate_sweep_configs :: "SweepConfig \<Rightarrow> config list" where
  "generate_sweep_configs sweep_config =
     map (\<lambda>(steps, rnk). sweep_record sweep_config steps rnk)
       (product (train_steps sweep_config) (ranks sweep_config))"

text \<open>The \<open>output_dir\<close> entries of a list of configuration mappings, in order.\<close>

definition output_dirs :: "config list \<Rightarrow> pyval option list" where
  "output_dirs configs = map (\<lambda>c. map_of c ''output_dir'') configs"

subsection \<open>Training\<close>

text \<open>
  What \<open>train\<close> does to its surroundings is recorded as a trace of events, in the order
  they happen. The child process is a parameter: \<open>proc cmd\<close> is \<open>None\<close> when
  \<open>Popen(cmd)\<close> cannot start the child and raises \<open>OSError\<close>; otherwise it is the list of
  raw lines that \<open>pipe.readline\<close> returns one after the other, and the status that
  \<open>process.wait()\<close> returns.
\<close>

datatype event =
    WriteBasicConfig
  | Print string
  | Popen "string list"
  | VolumeCommit

text \<open>
  \<open>line.decode()\<close> decodes UTF-8 strictly and raises \<open>UnicodeDecodeError\<close> on bytes that
  are not well-formed UTF-8. A Python \<open>str\<close> is kept as its UTF-8 bytes, so decoding a
  well-formed line gives the line itself. \<open>utf8_valid\<close> accepts exactly the well-formed
  byte sequences: no overlong forms, no surrogates, nothing above U+10FFFF.
\<close>

definition byte :: "char \<Rightarrow> nat" where
  "byte c = of_char c"

definition between :: "nat \<Rightarrow> nat \<Rightarrow> char \<Rightarrow> bool" where
  "between lo hi c = (lo \<le> byte c \<and> byte c \<le> hi)"

fun utf8_valid :: "string \<Rightarrow> bool" where
  "utf8_valid [] = True"
| "utf8_valid (a # rest) =
     (if byte a \<le> 0x7F then utf8_valid rest
      else if between 0xC2 0xDF a then
        (case rest of
           b # r \<Rightarrow> between 0x80 0xBF b \<and> utf8_valid r
         | _ \<Rightarrow> False)
      else if between 0xE0 0xEF a then
        (case rest of
           b # c # r \<Rightarrow>
             (if byte a = 0xE0 then between 0xA0 0xBF b
              else if byte a = 0xED then between 0x80 0x9F b
              else between 0x80 0xBF b)
             \<and> between 0x80 0xBF c \<and> utf8_valid r
         | _ \<Rightarrow> False)
      else if between 0xF0 0xF4 a then
        (case rest of
           b # c # d # r \<Rightarrow>
             (if byte a = 0xF0 then between 0x90 0xBF b
              else if byte a = 0xF4 then between 0x80 0x8F b
              else between 0x80 0xBF b)
             \<and> between 0x80 0xBF c \<and> between 0x80 0xBF d \<and> utf8_valid r
         | _ \<Rightarrow> False)
      else False)"

text \<open>
  The first argument of \<open>CalledProcessError\<close> is whatever Python object the caller passes:
  an \<open>int\<close> or a \<open>bool\<close>. \<open>returncode_int\<close> is its value as an integer
  (\<open>int(True) = 1\<close>).
\<close>

datatype returncode = RcInt int | RcBool bool

fun returncode_int :: "returncode \<Rightarrow> int" where
  "returncode_int (RcInt i) = i"
| "returncode_int (RcBool b) = (if b then 1 else 0)"

datatype train_error =
    CalledProcessError returncode string
  | KeyError string
  | UnicodeDecodeError
  | OSError

text \<open>
  The loop of \<open>_exec_subprocess\<close> over the lines of the pipe: each line is decoded and
  printed; a line that does not decode raises, with the earlier lines already printed.
\<close>

fun print_lines :: "string list \<Rightarrow> event list \<Rightarrow> (train_error + unit) \<times> event list" where
  "print_lines [] tr = (Inr (), tr)"
| "print_lines (line # lines) tr =
     (if utf8_valid line then print_lines lines (tr @ [Print line])
      else (Inl UnicodeDecodeError, tr))"

text \<open>
  \<open>_exec_subprocess\<close>: the child is started, its output is printed line by line, then
  \<open>if exitcode := process.wait() != 0\<close> binds \<open>exitcode\<close> to the value of the comparison
  (the walrus operator binds weaker than \<open>!=\<close>) and raises with it when it is true.
\<close>

definition exec_subprocess ::
  "(string list \<Rightarrow> (string list \<times> int) option) \<Rightarrow> string list \<Rightarrow> event list
     \<Rightarrow> (train_error + unit) \<times> event list" where
  "exec_subprocess proc cmd tr =
     (case proc cmd of
        None \<Rightarrow> (Inl OSError, tr)
      | Some (lines, status) \<Rightarrow>
          (case print_lines lines (tr @ [Popen cmd]) of
             (Inl e, tr') \<Rightarrow> (Inl e, tr')
           | (Inr u, tr') \<Rightarrow>
               (let exitcode = (status \<noteq> 0)
                in if exitcode
                   then (Inl (CalledProcessError (RcBool exitcode) (join_sep [CHR 0x0A] cmd)), tr')
                   else (Inr (), tr'))))"

text \<open>
  The command line of \<open>train\<close>: a literal argument, or an f-string made of a literal
  prefix and \<open>config[key]\<close>. The list is built left to right, so the first missing key
  raises \<open>KeyError\<close>.
\<close>

datatype cmd_item = Lit string | Fmt string string

fun render_items :: "config \<Rightarrow> cmd_item list \<Rightarrow> train_error + string list" where
  "render_items cfg [] = Inr []"
| "render_items cfg (Lit s # items) =
     (case render_items cfg items of Inl e \<Rightarrow> Inl e | Inr r \<Rightarrow> Inr (s # r))"
| "render_items cfg (Fmt p k # items) =
     (case map_of cfg k of
        None \<Rightarrow> Inl (KeyError k)
      | Some v \<Rightarrow>
          (case render_items cfg items of
             Inl e \<Rightarrow> Inl e
           | Inr r \<Rightarrow> Inr ((p @ format_val v) # r)))"

definition train_cmd_items :: "cmd_item list" where
  "train_cmd_items =
     [ Lit ''accelerate'',
       Lit ''launch'',
       Lit ''examples/dreambooth/train_dreambooth_flux.py'',
       Lit ''--mixed_precision=bf16'',
       Fmt ''--pretrained_model_name_or_path='' ''model_name'',
       Fmt ''--dataset_name='' ''dataset_name'',
       Fmt ''--caption_column='' ''caption_column'',
       Fmt ''--output_dir='' ''output_dir'',
       Fmt ''--instance_prompt='' ''instance_prompt'',
       Fmt ''--resolution='' ''resolution'',
       Fmt ''--train_batch_size='' ''train_batch_size'',
       Fmt ''--gradient_accumulation_steps='' ''gradient_accumulation_steps'',
       Lit (''--optimizer='' @ [CHR 0x27] @ ''prodigy'' @ [CHR 0x27]),
       Lit ''--learning_rate=1.'',
       Fmt ''--lr_scheduler='' ''lr_scheduler'',
       Fmt ''--lr_warmup_steps='' ''lr_warmup_steps'',
       Fmt ''--max_train_steps='' ''max_train_steps'',
       Fmt ''--checkpointing_steps='' ''checkpointing_steps'',
       Fmt ''--seed='' ''seed'' ]"

definition train ::
  "(string list \<Rightarrow> (string list \<times> int) option) \<Rightarrow> config \<Rightarrow> event list
     \<Rightarrow> (train_error + config) \<times> event list" where
  "train proc config tr =
     (let tr1 = tr @ [WriteBasicConfig, Print ''launching dreambooth training script'']
      in case render_items config train_cmd_items of
           Inl e \<Rightarrow> (Inl e, tr1)
         | Inr cmd \<Rightarrow>
             (case exec_subprocess proc
                     (cmd @ (if USE_WANDB then [''--report_to=wandb''] else [])) tr1 of
                (Inl e, tr2) \<Rightarrow> (Inl e, tr2)
              | (Inr u, tr2) \<Rightarrow> (Inr config, tr2 @ [VolumeCommit])))"

subsection \<open>Evaluation lookups\<close>

text \<open>
  \<open>run\<close> names the model directory of a trained configuration by the f-string
  \<open>steps_{config['max_train_steps']}_rank_{config['rank']}\<close>, and \<open>Model.load_model\<close>
  loads the weights from \<open>{MODEL_DIR}/{self.hyperparameter_model_dir}\<close>.
\<close>

definition run_model_dir :: "config \<Rightarrow> train_error + string" where
  "run_model_dir config =
     (case map_of config ''max_train_steps'' of
        None \<Rightarrow> Inl (KeyError ''max_train_steps'')
      | Some s \<Rightarrow>
          (case map_of config ''rank'' of
             None \<Rightarrow> Inl (KeyError ''rank'')
           | Some r \<Rightarrow> Inr (''steps_'' @ format_val s @ ''_rank_'' @ format_val r)))"

definition load_model_path :: "string \<Rightarrow> string" where
  "load_model_path hyperparameter_model_dir = MODEL_DIR @ ''/'' @ hyperparameter_model_dir"

subsection \<open>Web interface\<close>

text \<open>
  The handler \<open>go\<close> of the form. The text box delivers a string or \<open>None\<close>; \<open>not text\<close>
  holds for \<open>None\<close> and for the empty string. The result is the pair of arguments of the
  remote call \<open>Model().inference.remote(text, config)\<close>.
\<close>

definition instance_phrase :: "AppConfig \<Rightarrow> string" where
  "instance_phrase config = instance_name config @ '' the '' @ class_name config"

definition example_prompts :: "AppConfig \<Rightarrow> string list" where
  "example_prompts config =
     [ instance_phrase config,
       ''a painting of '' @ title (instance_phrase config) @ '' With A Pearl Earring, by Vermeer'',
       ''oil painting of '' @ instance_phrase config @ '' flying through space as an astronaut'',
       ''a painting of '' @ instance_phrase config
         @ '' in cyberpunk city. character design by cory loftis. volumetric light, detailed, rendered in octane'',
       ''drawing of '' @ instance_phrase config
         @ '' high quality, cartoon, path traced, by studio ghibli and don bluth'' ]"

definition go :: "AppConfig \<Rightarrow> string option \<Rightarrow> string \<times> AppConfig" where
  "go config text =
     (let text' = (case text of
                     None \<Rightarrow> example_prompts config ! 0
                   | Some s \<Rightarrow> if s = [] then example_prompts config ! 0 else s)
      in (text', config))"


section \<open>shlex.split\<close>

text \<open>
  \<open>shlex.split(s)\<close> is the POSIX-mode lexer of the standard library with
  \<open>whitespace_split = True\<close>, no comment characters and no punctuation characters.
  The lexer's state is \<open>' '\<close> (between tokens), \<open>'a'\<close> (inside a word), a quote character
  (inside a quotation) or the escape character (after a backslash); \<open>escapedstate\<close> is the
  state an escape returns to, \<open>quoted\<close> records that the current token had a quotation,
  and \<open>token\<close> is the text collected so far.

  \<open>lex\<close> runs \<open>read_token\<close> over the rest of the input and collects the tokens, as
  \<open>list(lex)\<close> does: where \<open>read_token\<close> leaves its loop with a token, the token is emitted
  and the next call starts with an empty token, \<open>quoted = False\<close> and
  \<open>escapedstate = ' '\<close>; at the end of the input a last token is emitted unless it is
  empty and unquoted, and the iteration stops. End of input inside a quotation or after a
  backslash raises \<open>ValueError\<close>.
\<close>

datatype lex_state = Ws | Word | Quote char | Esc

datatype shlex_error = NoClosingQuotation | NoEscapedCharacter

definition whitespace :: "char set" where
  "whitespace = {CHR '' '', CHR 0x09, CHR 0x0D, CHR 0x0A}"

definition quotes :: "char set" where
  "quotes = {CHR 0x27, CHR 0x22}"

definition escape :: char where
  "escape = CHR 0x5C"

definition escapedquotes :: "char set" where
  "escapedquotes = {CHR 0x22}"

fun emit :: "string \<Rightarrow> shlex_error + string list \<Rightarrow> shlex_error + string list" where
  "emit t (Inl e) = Inl e"
| "emit t (Inr ts) = Inr (t # ts)"

fun lex :: "lex_state \<Rightarrow> lex_state \<Rightarrow> bool \<Rightarrow> string \<Rightarrow> string \<Rightarrow> shlex_error + string list" where
  "lex Ws escapedstate quoted token [] =
     (if token = [] \<and> \<not> quoted then Inr [] else Inr [token])"
| "lex Ws escapedstate quoted token (nextchar # rest) =
     (if nextchar \<in> whitespace then
        (if token \<noteq> [] \<or> quoted then emit token (lex Ws Ws False [] rest)
         else lex Ws escapedstate quoted token rest)
      else if nextchar = escape then lex Esc Word quoted token rest
      else if nextchar \<in> quotes then lex (Quote nextchar) escapedstate quoted token rest
      else lex Word escapedstate quoted [nextchar] rest)"
| "lex (Quote q) escapedstate quoted token [] = Inl NoClosingQuotation"
| "lex (Quote q) escapedstate quoted token (nextchar # rest) =
     (if nextchar = q then lex Word escapedstate True token rest
      else if nextchar = escape \<and> q \<in> escapedquotes then lex Esc (Quote q) True token rest
      else lex (Quote q) escapedstate True (token @ [nextchar]) rest)"
| "lex Esc escapedstate quoted token [] = Inl NoEscapedCharacter"
| "lex Esc escapedstate quoted token (nextchar # rest) =
     (let token' = (case escapedstate of
                      Quote q \<Rightarrow> if nextchar \<noteq> escape \<and> nextchar \<noteq> q
                                 then token @ [escape] else token
                    | _ \<Rightarrow> token)
      in lex escapedstate escapedstate quoted (token' @ [nextchar]) rest)"
| "lex Word escapedstate quoted token [] =
     (if token = [] \<and> \<not> quoted then Inr [] else Inr [token])"
| "lex Word escapedstate quoted token (nextchar # rest) =
     (if nextchar \<in> whitespace then
        (if token \<noteq> [] \<or> quoted then emit token (lex Ws Ws False [] rest)
         else lex Ws escapedstate quoted token rest)
      else if nextchar \<in> quotes then lex (Quote nextchar) escapedstate quoted token rest
      else if nextchar = escape then lex Esc Word quoted token rest
      else lex Word escapedstate quoted (token @ [nextchar]) rest)"

definition shlex_split :: "string \<Rightarrow> shlex_error + string list" where
  "shlex_split s = lex Ws Ws False [] s"


text \<open>
  How a token is written in an argument string, following the quoting rules of the
  POSIX shell. A word is a sequence of pieces: a bare character (no whitespace, quote or
  backslash), a backslash followed by any character (standing for that character), a
  text in single quotes (taken literally; it cannot hold a single quote), or a text in
  double quotes. Inside double quotes a character other than the double quote and the
  backslash stands for itself, a backslash before a double quote or a backslash stands
  for that character alone, and a backslash before any other character stands for
  both. Words are separated by blanks: spaces, tabs, carriage returns, newlines.
\<close>

datatype dq_item = DqChar char | DqEscaped char

fun written_dq :: "dq_item \<Rightarrow> string" where
  "written_dq (DqChar c) = [c]"
| "written_dq (DqEscaped c) = [CHR 0x5C, c]"

fun meaning_dq :: "dq_item \<Rightarrow> string" where
  "meaning_dq (DqChar c) = [c]"
| "meaning_dq (DqEscaped c) = (if c = CHR 0x22 \<or> c = CHR 0x5C then [c] else [CHR 0x5C, c])"

fun well_dq :: "dq_item \<Rightarrow> bool" where
  "well_dq (DqChar c) = (c \<noteq> CHR 0x22 \<and> c \<noteq> CHR 0x5C)"
| "well_dq (DqEscaped c) = True"

datatype piece = Bare char | Escaped char | SingleQuoted string | DoubleQuoted "dq_item list"

definition is_blank_char :: "char \<Rightarrow> bool" where
  "is_blank_char c = (c = CHR '' '' \<or> c = CHR 0x09 \<or> c = CHR 0x0D \<or> c = CHR 0x0A)"

fun written_piece :: "piece \<Rightarrow> string" where
  "written_piece (Bare c) = [c]"
| "written_piece (Escaped c) = [CHR 0x5C, c]"
| "written_piece (SingleQuoted s) = [CHR 0x27] @ s @ [CHR 0x27]"
| "written_piece (DoubleQuoted ds) = [CHR 0x22] @ concat (map written_dq ds) @ [CHR 0x22]"

fun meaning_piece :: "piece \<Rightarrow> string" where
  "meaning_piece (Bare c) = [c]"
| "meaning_piece (Escaped c) = [c]"
| "meaning_piece (SingleQuoted s) = s"
| "meaning_piece (DoubleQuoted ds) = concat (map meaning_dq ds)"

fun well_piece :: "piece \<Rightarrow> bool" where
  "well_piece (Bare c) = (\<not> is_blank_char c \<and> c \<noteq> CHR 0x27 \<and> c \<noteq> CHR 0x22 \<and> c \<noteq> CHR 0x5C)"
| "well_piece (Escaped c) = True"
| "well_piece (SingleQuoted s) = list_all (\<lambda>c. c \<noteq> CHR 0x27) s"
| "well_piece (DoubleQuoted ds) = list_all well_dq ds"

text \<open>A piece that is a quotation: it makes a token even when its text is empty.\<close>

fun quoting :: "piece \<Rightarrow> bool" where
  "quoting (SingleQuoted s) = True"
| "quoting (DoubleQuoted ds) = True"
| "quoting p = False"

definition written_word :: "piece list \<Rightarrow> string" where
  "written_word w = concat (map written_piece w)"

definition meaning_word :: "piece list \<Rightarrow> string" where
  "meaning_word w = concat (map meaning_piece w)"

definition well_word :: "piece list \<Rightarrow> bool" where
  "well_word w = (w \<noteq> [] \<and> list_all well_piece w)"

text \<open>
  An argument string: each word with the blanks that follow it. Between two words there
  is at least one blank; after the last word there may be none.
\<close>

fun written_line :: "(piece list \<times> string) list \<Rightarrow> string" where
  "written_line [] = []"
| "written_line ((w, blanks) # rest) = written_word w @ blanks @ written_line rest"

fun well_line :: "(piece list \<times> string) list \<Rightarrow> bool" where
  "well_line [] = True"
| "well_line [(w, blanks)] = (well_word w \<and> list_all is_blank_char blanks)"
| "well_line ((w, blanks) # rest) =
     (well_word w \<and> blanks \<noteq> [] \<and> list_all is_blank_char blanks \<and> well_line rest)"

section \<open>os.path on POSIX\<close>

text \<open>
  \<open>os.path.join\<close>, \<open>normpath\<close>, \<open>abspath\<close> and \<open>relpath\<close> of \<open>posixpath\<close>. \<open>abspath\<close>
  and \<open>relpath\<close> read the working directory: it is the argument \<open>cwd\<close>, the string that
  \<open>os.getcwd()\<close> returns.
\<close>

definition os_path_join :: "string \<Rightarrow> string \<Rightarrow> string" where
  "os_path_join a b =
     (if b \<noteq> [] \<and> hd b = CHR ''/'' then b
      else if a = [] \<or> last a = CHR ''/'' then a @ b
      else a @ ''/'' @ b)"

definition initial_slashes :: "string \<Rightarrow> nat" where
  "initial_slashes path =
     (if take 1 path = ''/'' then (if take 2 path = ''//'' \<and> take 3 path \<noteq> ''///'' then 2 else 1)
      else 0)"

text \<open>One round of the loop of \<open>normpath\<close> over the components.\<close>

definition norm_step :: "nat \<Rightarrow> string list \<Rightarrow> string \<Rightarrow> string list" where
  "norm_step slashes new_comps part =
     (if part = [] \<or> part = ''.'' then new_comps
      else if part \<noteq> ''..'' \<or> (slashes = 0 \<and> new_comps = [])
              \<or> (new_comps \<noteq> [] \<and> last new_comps = ''..'')
      then new_comps @ [part]
      else if new_comps \<noteq> [] then butlast new_comps
      else new_comps)"

definition normpath :: "string \<Rightarrow> string" where
  "normpath path =
     (if path = [] then ''.''
      else (let slashes = initial_slashes path;
                comps = foldl (norm_step slashes) [] (split_sep CHR ''/'' path);
                path' = replicate slashes CHR ''/'' @ join_sep ''/'' comps
            in if path' = [] then ''.'' else path'))"

definition isabs :: "string \<Rightarrow> bool" where
  "isabs s = (s \<noteq> [] \<and> hd s = CHR ''/'')"

definition abspath :: "string \<Rightarrow> string \<Rightarrow> string" where
  "abspath cwd path = normpath (if isabs path then path else os_path_join cwd path)"

fun commonprefix :: "'a list \<Rightarrow> 'a list \<Rightarrow> 'a list" where
  "commonprefix (x # xs) (y # ys) = (if x = y then x # commonprefix xs ys else [])"
| "commonprefix xs ys = []"

text \<open>
  The exceptions of \<open>boltz1.py\<close> and of the library functions it calls:
  \<open>TypeError\<close> of \<open>Path(None)\<close>; the \<open>ValueError\<close> of \<open>shlex.split\<close> and the one of
  \<open>relpath\<close> for an empty path; the \<open>OSError\<close>s of the file system;
  \<open>UnicodeDecodeError\<close> of \<open>read_text\<close> (\<open>ReadDecodeError\<close>); \<open>CalledProcessError\<close> of
  \<open>subprocess.run(check=True)\<close> with the status and the argument vector
  (\<open>PredictorError\<close>), and the \<open>OSError\<close> of \<open>subprocess.run\<close> when the program cannot be
  started (\<open>PredictorNotStarted\<close>); an exception raised by a remote call
  (\<open>RemoteError\<close>).
\<close>

datatype boltz_error =
    TypeError
  | ShlexValueError shlex_error
  | RelpathValueError
  | FileNotFoundError string
  | FileExistsError string
  | IsADirectoryError string
  | ReadDecodeError
  | PredictorError int "string list"
  | PredictorNotStarted
  | RemoteError string

definition relpath :: "string \<Rightarrow> string \<Rightarrow> string \<Rightarrow> boltz_error + string" where
  "relpath cwd path start =
     (if path = [] then Inl RelpathValueError
      else (let start_list = filter (\<lambda>x. x \<noteq> []) (split_sep CHR ''/'' (abspath cwd start));
                path_list = filter (\<lambda>x. x \<noteq> []) (split_sep CHR ''/'' (abspath cwd path));
                i = length (commonprefix start_list path_list);
                rel_list = replicate (length start_list - i) ''..'' @ drop i path_list
            in case rel_list of
                 [] \<Rightarrow> Inr ''.''
               | a # p \<Rightarrow> Inr (foldl os_path_join a p)))"

section \<open>The file system\<close>

text \<open>
  A file system is a tree: a file with its content, or a directory with its entries in
  the order \<open>scandir\<close> lists them. There are no symbolic links and no permissions. Bytes
  are characters. \<open>fs_cwd\<close> is the working directory as \<open>os.getcwd()\<close> returns it.
  \<open>get n names\<close> descends from \<open>n\<close> along entry names.
\<close>

datatype node = File string | Dir "(string \<times> node) list"

record filesystem =
  fs_root :: node
  fs_cwd :: string

fun get :: "node \<Rightarrow> string list \<Rightarrow> node option" where
  "get n [] = Some n"
| "get (File content) (c # cs) = None"
| "get (Dir es) (c # cs) = (case map_of es c of None \<Rightarrow> None | Some n \<Rightarrow> get n cs)"

text \<open>
  Path resolution as the kernel does it, one component at a time from the root. The
  state is the list of entry names from the root to the current node. Every step needs
  the current node to be a directory; an empty component or \<open>.\<close> stays where it is,
  \<open>..\<close> goes to the parent (the root is its own parent), a name goes to the entry of
  that name. An empty path does not resolve. A relative path starts at the working
  directory.
\<close>

definition resolve_step :: "node \<Rightarrow> string list option \<Rightarrow> string \<Rightarrow> string list option" where
  "resolve_step root st part =
     (case st of
        None \<Rightarrow> None
      | Some names \<Rightarrow>
          (case get root names of
             Some (Dir es) \<Rightarrow>
               (if part = [] \<or> part = ''.'' then Some names
                else if part = ''..'' then Some (butlast names)
                else (case map_of es part of
                        None \<Rightarrow> None
                      | Some n \<Rightarrow> Some (names @ [part])))
           | _ \<Rightarrow> None))"

definition components :: "filesystem \<Rightarrow> string \<Rightarrow> string list" where
  "components fs p =
     (if isabs p then [] else split_sep CHR ''/'' (fs_cwd fs)) @ split_sep CHR ''/'' p"

definition resolve :: "filesystem \<Rightarrow> string \<Rightarrow> string list option" where
  "resolve fs p =
     (if p = [] then None
      else foldl (resolve_step (fs_root fs)) (Some []) (components fs p))"

definition lookup :: "filesystem \<Rightarrow> string \<Rightarrow> node option" where
  "lookup fs p =
     (case resolve fs p of
        None \<Rightarrow> None
      | Some names \<Rightarrow> get (fs_root fs) names)"

text \<open>
  \<open>put n names new\<close> replaces the node at \<open>names\<close> below \<open>n\<close> by \<open>new\<close>, or adds it as the
  last entry of its directory when there is none of that name.
\<close>

fun put :: "node \<Rightarrow> string list \<Rightarrow> node \<Rightarrow> node"
  and put_in :: "(string \<times> node) list \<Rightarrow> string \<Rightarrow> string list \<Rightarrow> node \<Rightarrow> (string \<times> node) list"
where
  "put n [] new = new"
| "put (File content) (c # cs) new = File content"
| "put (Dir es) (c # cs) new = Dir (put_in es c cs new)"
| "put_in [] c cs new = (if cs = [] then [(c, new)] else [])"
| "put_in ((k, v) # es) c cs new =
     (if k = c then (k, put v cs new) # es else (k, v) # put_in es c cs new)"

text \<open>
  Creating an entry, for \<open>open(p, 'w')\<close> and \<open>os.mkdir(p)\<close>: the directory part of the
  path must resolve to a directory and the last component must be a name.
  \<open>write_file\<close> replaces a file of that name and fails on a directory; \<open>os_mkdir\<close>
  fails when the path exists.
\<close>

definition is_name :: "string \<Rightarrow> bool" where
  "is_name part = (part \<noteq> [] \<and> part \<noteq> ''.'' \<and> part \<noteq> ''..'')"

definition resolve_parent :: "filesystem \<Rightarrow> string \<Rightarrow> (string list \<times> (string \<times> node) list) option" where
  "resolve_parent fs p =
     (if p = [] then None
      else (case foldl (resolve_step (fs_root fs)) (Some []) (butlast (components fs p)) of
              None \<Rightarrow> None
            | Some names \<Rightarrow>
                (case get (fs_root fs) names of
                   Some (Dir es) \<Rightarrow> Some (names, es)
                 | _ \<Rightarrow> None)))"

definition write_file :: "filesystem \<Rightarrow> string \<Rightarrow> string \<Rightarrow> boltz_error + filesystem" where
  "write_file fs p content =
     (case resolve_parent fs p of
        None \<Rightarrow> Inl (FileNotFoundError p)
      | Some (names, es) \<Rightarrow>
          (let leaf = last (components fs p)
           in if \<not> is_name leaf then Inl (IsADirectoryError p)
              else (case map_of es leaf of
                      Some (Dir ds) \<Rightarrow> Inl (IsADirectoryError p)
                    | _ \<Rightarrow> Inr (fs \<lparr> fs_root := put (fs_root fs) (names @ [leaf]) (File content) \<rparr>))))"

definition os_mkdir :: "filesystem \<Rightarrow> string \<Rightarrow> boltz_error + filesystem" where
  "os_mkdir fs p =
     (if lookup fs p \<noteq> None then Inl (FileExistsError p)
      else (case resolve_parent fs p of
              None \<Rightarrow> Inl (FileNotFoundError p)
            | Some (names, es) \<Rightarrow>
                (let leaf = last (components fs p)
                 in if \<not> is_name leaf then Inl (FileNotFoundError p)
                    else Inr (fs \<lparr> fs_root := put (fs_root fs) (names @ [leaf]) (Dir []) \<rparr>))))"

text \<open>
  \<open>p.mkdir(parents=True, exist_ok=True)\<close> of pathlib: \<open>os.mkdir\<close>; when a parent is
  missing, the parent is made first in the same way and \<open>os.mkdir\<close> is tried once more;
  any other error is dropped when the path is a directory. The parts of the path are
  given last part first.
\<close>

definition mkdir_exist_ok :: "filesystem \<Rightarrow> string \<Rightarrow> boltz_error + filesystem" where
  "mkdir_exist_ok fs p =
     (case os_mkdir fs p of
        Inr fs' \<Rightarrow> Inr fs'
      | Inl (FileNotFoundError x) \<Rightarrow> Inl (FileNotFoundError x)
      | Inl e \<Rightarrow> (case lookup fs p of Some (Dir es) \<Rightarrow> Inr fs | _ \<Rightarrow> Inl e))"

fun mkdir_parents :: "filesystem \<Rightarrow> string \<Rightarrow> string list \<Rightarrow> boltz_error + filesystem" where
  "mkdir_parents fs root rparts =
     (case os_mkdir fs (str_path (Path root (rev rparts))) of
        Inr fs' \<Rightarrow> Inr fs'
      | Inl (FileNotFoundError x) \<Rightarrow>
          (case rparts of
             [] \<Rightarrow> Inl (FileNotFoundError x)
           | part # upper \<Rightarrow>
               (case mkdir_parents fs root upper of
                  Inl e \<Rightarrow> Inl e
                | Inr fs1 \<Rightarrow> mkdir_exist_ok fs1 (str_path (Path root (rev rparts)))))
      | Inl e \<Rightarrow>
          (case lookup fs (str_path (Path root (rev rparts))) of
             Some (Dir es) \<Rightarrow> Inr fs
           | _ \<Rightarrow> Inl e))"

definition mkdir :: "filesystem \<Rightarrow> path \<Rightarrow> boltz_error + filesystem" where
  "mkdir fs p = mkdir_parents fs (proot p) (rev (pparts p))"

text \<open>
  \<open>p.read_text()\<close> reads a file and decodes it as UTF-8;
  \<open>p.resolve()\<close> makes the path absolute and normal (there are no symbolic links).
\<close>

definition read_text :: "filesystem \<Rightarrow> path \<Rightarrow> boltz_error + string" where
  "read_text fs p =
     (case lookup fs (str_path p) of
        Some (File content) \<Rightarrow> if utf8_valid content then Inr content else Inl ReadDecodeError
      | Some (Dir es) \<Rightarrow> Inl (IsADirectoryError (str_path p))
      | None \<Rightarrow> Inl (FileNotFoundError (str_path p)))"

definition resolve_path :: "filesystem \<Rightarrow> path \<Rightarrow> path" where
  "resolve_path fs p = Path_of (abspath (fs_cwd fs) (str_path p))"

section \<open>boltz1.py\<close>

subsection \<open>Packaging the outputs\<close>

text \<open>
  \<open>os.walk(top)\<close>, top down, with the source's \<open>top\<close> written \<open>dirpath\<close>: a directory
  yields its own triple of path, directory names and file names, then the triples of its
  subdirectories in listing order, each under \<open>join(top, dirname)\<close>. A path that is not
  a directory yields nothing: the error of \<open>scandir\<close> is ignored.
\<close>

fun is_dir :: "node \<Rightarrow> bool" where
  "is_dir (Dir es) = True"
| "is_dir (File content) = False"

definition dirnames :: "(string \<times> node) list \<Rightarrow> string list" where
  "dirnames es = map fst (filter (\<lambda>e. is_dir (snd e)) es)"

definition filenames :: "(string \<times> node) list \<Rightarrow> string list" where
  "filenames es = map fst (filter (\<lambda>e. \<not> is_dir (snd e)) es)"

fun walk_dir :: "string \<Rightarrow> (string \<times> node) list \<Rightarrow> (string \<times> string list \<times> string list) list"
  and walk_subdirs :: "string \<Rightarrow> (string \<times> node) list \<Rightarrow> (string \<times> string list \<times> string list) list"
where
  "walk_dir dirpath es = (dirpath, dirnames es, filenames es) # walk_subdirs dirpath es"
| "walk_subdirs dirpath [] = []"
| "walk_subdirs dirpath ((d, File content) # es) = walk_subdirs dirpath es"
| "walk_subdirs dirpath ((d, Dir ds) # es) =
     walk_dir (os_path_join dirpath d) ds @ walk_subdirs dirpath es"

definition os_walk :: "filesystem \<Rightarrow> string \<Rightarrow> (string \<times> string list \<times> string list) list" where
  "os_walk fs dirpath =
     (case lookup fs dirpath of
        Some (Dir es) \<Rightarrow> walk_dir dirpath es
      | _ \<Rightarrow> [])"

text \<open>
  An archive is the list of its entries, name and content, in the order they were
  written. The byte layout is the work of \<open>zipfile\<close>: \<open>zip_bytes\<close>, a parameter, gives
  the bytes of \<open>zip_buffer.getvalue()\<close> for a list of entries.
  \<open>zip_write\<close> is \<open>ZipFile.write(filename, arcname)\<close>: the entry is named by the
  normalised \<open>arcname\<close> without leading slashes and holds the content of the file.
\<close>

type_synonym archive = "(string \<times> string) list"

definition zip_write :: "filesystem \<Rightarrow> string \<Rightarrow> string \<Rightarrow> boltz_error + (string \<times> string)" where
  "zip_write fs file_path arcname =
     (case lookup fs file_path of
        Some (File content) \<Rightarrow>
          Inr (dropWhile (\<lambda>c. c = CHR ''/'') (normpath arcname), content)
      | _ \<Rightarrow> Inl (FileNotFoundError file_path))"

fun collect :: "('a \<Rightarrow> boltz_error + 'b) \<Rightarrow> 'a list \<Rightarrow> boltz_error + 'b list" where
  "collect f [] = Inr []"
| "collect f (x # xs) =
     (case f x of
        Inl e \<Rightarrow> Inl e
      | Inr y \<Rightarrow> (case collect f xs of Inl e \<Rightarrow> Inl e | Inr ys \<Rightarrow> Inr (y # ys)))"

definition package_file :: "filesystem \<Rightarrow> string \<Rightarrow> string \<times> string \<Rightarrow> boltz_error + (string \<times> string)" where
  "package_file fs output_dir rf =
     (let file_path = os_path_join (fst rf) (snd rf)
      in case relpath (fs_cwd fs) file_path output_dir of
           Inl e \<Rightarrow> Inl e
         | Inr arcname \<Rightarrow> zip_write fs file_path arcname)"

definition package_entries :: "filesystem \<Rightarrow> string \<Rightarrow> boltz_error + archive" where
  "package_entries fs output_dir =
     collect (package_file fs output_dir)
       (concat (map (\<lambda>(root, dirs, files). map (\<lambda>file. (root, file)) files)
                  (os_walk fs output_dir)))"

definition package_outputs :: "(archive \<Rightarrow> string) \<Rightarrow> filesystem \<Rightarrow> string \<Rightarrow> boltz_error + string" where
  "package_outputs zip_bytes fs output_dir =
     (case package_entries fs output_dir of
        Inl e \<Rightarrow> Inl e
      | Inr entries \<Rightarrow> Inr (zip_bytes entries))"

text \<open>
  The files of a directory tree with their paths relative to its root, as lists of
  names: the description of the tree that the packaging is compared with.
\<close>

fun file_at :: "node \<Rightarrow> string list \<Rightarrow> string option" where
  "file_at n names = (case get n names of Some (File content) \<Rightarrow> Some content | _ \<Rightarrow> None)"

text \<open>
  In a well-formed tree every entry name is a name without a slash, and no directory
  lists a name twice.
\<close>

fun wf_node :: "node \<Rightarrow> bool"
  and wf_entries :: "(string \<times> node) list \<Rightarrow> bool"
where
  "wf_node (File content) = True"
| "wf_node (Dir es) = (distinct (map fst es) \<and> wf_entries es)"
| "wf_entries [] = True"
| "wf_entries ((k, v) # es) =
     (is_name k \<and> CHR ''/'' \<notin> set k \<and> wf_node v \<and> wf_entries es)"

subsection \<open>Inference\<close>

text \<open>
  The container of \<open>boltz1_inference\<close>: its file system, and the predictor as a
  parameter. \<open>predictor argv fs\<close> is \<open>None\<close> when \<open>subprocess.run\<close> cannot start the
  program; otherwise it is the exit status of the program and the file system as the
  program leaves it. The trace holds what is printed and the argument vector of each
  program that was run.
\<close>

datatype boltz_event = Printed string | Ran "string list"

definition dna :: string where
  "dna = [CHR 0xF0, CHR 0x9F, CHR 0xA7, CHR 0xAC]"

definition models_dir :: path where
  "models_dir = Path_of ''/models/boltz1''"

definition input_path :: path where
  "input_path = Path_of ''input.yaml''"

text \<open>
  The argument vector of the predictor: \<open>args = shlex.split(args)\<close>, then the fixed
  arguments followed by \<open>args\<close>.
\<close>

definition inference_argv :: "string \<Rightarrow> boltz_error + string list" where
  "inference_argv args =
     (case shlex_split args of
        Inl e \<Rightarrow> Inl (ShlexValueError e)
      | Inr tokens \<Rightarrow>
          Inr ([''boltz'', ''predict'', str_path input_path, ''--cache'', str_path models_dir,
                ''--use_msa_server''] @ tokens))"

definition results_dir :: "boltz_error + string" where
  "results_dir =
     (case with_suffix input_path [] of
        None \<Rightarrow> Inl RelpathValueError
      | Some p \<Rightarrow> Inr (''boltz_results_'' @ name p))"

definition boltz1_inference ::
  "(string list \<Rightarrow> filesystem \<Rightarrow> (int \<times> filesystem) option) \<Rightarrow> (archive \<Rightarrow> string)
     \<Rightarrow> filesystem \<Rightarrow> string \<Rightarrow> string
     \<Rightarrow> (boltz_error + string) \<times> filesystem \<times> boltz_event list" where
  "boltz1_inference predictor zip_bytes fs boltz_input_yaml args =
     (case write_file fs (str_path input_path) boltz_input_yaml of
        Inl e \<Rightarrow> (Inl e, fs, [])
      | Inr fs1 \<Rightarrow>
          (case inference_argv args of
             Inl e \<Rightarrow> (Inl e, fs1, [])
           | Inr argv \<Rightarrow>
               (let tr1 = [Printed (dna @ '' predicting structure using boltz model from ''
                                      @ str_path models_dir)]
                in case predictor argv fs1 of
                     None \<Rightarrow> (Inl PredictorNotStarted, fs1, tr1 @ [Ran argv])
                   | Some (status, fs2) \<Rightarrow>
                       if status \<noteq> 0
                       then (Inl (PredictorError status argv), fs2, tr1 @ [Ran argv])
                       else (let tr2 = tr1 @ [Ran argv, Printed (dna @ '' packaging up outputs'')]
                             in case results_dir of
                                  Inl e \<Rightarrow> (Inl e, fs2, tr2)
                                | Inr output_dir \<Rightarrow>
                                    (package_outputs zip_bytes fs2 output_dir, fs2, tr2)))))"

subsection \<open>The entry point\<close>

text \<open>
  \<open>main\<close> runs on the caller's machine, with its file system. The two remote functions
  are parameters: \<open>download_model_remote force_download\<close> is the exception the call
  raises, if any, and \<open>boltz1_inference_remote yaml args\<close> is the exception or the bytes
  that \<open>boltz1_inference.remote\<close> returns. \<open>main\<close> calls it with the input alone, so
  \<open>args\<close> has its default, the empty string. The result is what \<open>main\<close> raises, the file
  system it leaves and the lines it printed.
\<close>

definition Path_opt :: "string option \<Rightarrow> boltz_error + path" where
  "Path_opt s = (case s of None \<Rightarrow> Inl TypeError | Some x \<Rightarrow> Inr (Path_of x))"

definition format_opt :: "string option \<Rightarrow> string" where
  "format_opt s = (case s of None \<Rightarrow> ''None'' | Some x \<Rightarrow> x)"

definition main ::
  "(bool \<Rightarrow> boltz_error option) \<Rightarrow> (string \<Rightarrow> string \<Rightarrow> boltz_error + string)
     \<Rightarrow> filesystem \<Rightarrow> bool \<Rightarrow> string option \<Rightarrow> string \<Rightarrow> string
     \<Rightarrow> (boltz_error + unit) \<times> filesystem \<times> string list" where
  "main download_model_remote boltz1_inference_remote fs force_download input args out_dir =
     (let out1 = [dna @ '' loading model remotely'']
      in case download_model_remote force_download of
           Some e \<Rightarrow> (Inl e, fs, out1)
         | None \<Rightarrow>
      (case Path_opt input of
           Inl e \<Rightarrow> (Inl e, fs, out1)
         | Inr p \<Rightarrow>
      (let input1 = resolve_path fs p;
           input2 = name input1;
           out2 = (if input = None then out1 @ [''Provide input yaml by --input''] else out1)
       in case read_text fs input1 of
            Inl e \<Rightarrow> (Inl e, fs, out2)
          | Inr input_yaml \<Rightarrow>
      (let out3 = out2 @ [dna @ '' running boltz with input from '' @ format_opt input]
       in case boltz1_inference_remote input_yaml [] of
            Inl e \<Rightarrow> (Inl e, fs, out3)
          | Inr output \<Rightarrow>
      (let output_path = Path_of (''boltz_'' @ input2 @ ''_result.zip'')
       in case mkdir fs (parent output_path) of
            Inl e \<Rightarrow> (Inl e, fs, out3)
          | Inr fs1 \<Rightarrow>
      (let out4 = out3 @ [dna @ '' writing output to '' @ str_path output_path]
       in case write_file fs1 (str_path output_path) output of
            Inl e \<Rightarrow> (Inl e, fs1, out4)
          | Inr fs2 \<Rightarrow>
              (Inr (), fs2, out4 @ [''DONE! '' @ [CHR 0xF0, CHR 0x9F, CHR 0x8E, CHR 0x89]])))))))"
section \<open>Decimal rendering of integers\<close>

lemma digit_char_in: "d < 10 \<Longrightarrow> digit_char d \<in> set ''0123456789''"
  unfolding digit_char_def by (rule nth_mem) simp

lemma digit_char_inj: "a < 10 \<Longrightarrow> b < 10 \<Longrightarrow> digit_char a = digit_char b \<Longrightarrow> a = b"
proof -
  assume a: "a < 10" and b: "b < 10" and e: "digit_char a = digit_char b"
  have d: "distinct ''0123456789''" by simp
  have "a < length ''0123456789''" "b < length ''0123456789''" using a b by simp_all
  with d e show "a = b" unfolding digit_char_def by (simp only: nth_eq_iff_index_eq)
qed

lemma str_nat_digits: "set (str_nat n) \<subseteq> set ''0123456789''"
proof (induction n rule: str_nat.induct)
  case (1 n)
  show ?case
  proof (cases "n < 10")
    case True
    then show ?thesis using digit_char_in [of n] by (subst str_nat.simps) simp
  next
    case False
    have "n mod 10 < 10" by simp
    then have "digit_char (n mod 10) \<in> set ''0123456789''" by (rule digit_char_in)
    with False "1.IH" show ?thesis by (subst str_nat.simps) simp
  qed
qed

lemma str_nat_nonempty: "str_nat n \<noteq> []"
  by (subst str_nat.simps) simp

lemma str_nat_inj: "str_nat n = str_nat m \<Longrightarrow> n = m"
proof (induction n arbitrary: m rule: str_nat.induct)
  case (1 n)
  show ?case
  proof (cases "n < 10")
    case True
    note n = True
    show ?thesis
    proof (cases "m < 10")
      case True
      with n "1.prems" show ?thesis
        by (simp add: str_nat.simps [of n] str_nat.simps [of m] digit_char_inj)
    next
      case False
      with n "1.prems" str_nat_nonempty [of "m div 10"] show ?thesis
        by (simp add: str_nat.simps [of n] str_nat.simps [of m])
    qed
  next
    case False
    note n = False
    show ?thesis
    proof (cases "m < 10")
      case True
      with n "1.prems" str_nat_nonempty [of "n div 10"] show ?thesis
        by (simp add: str_nat.simps [of n] str_nat.simps [of m])
    next
      case False
      with n "1.prems" have e: "str_nat (n div 10) = str_nat (m div 10)"
        and d: "digit_char (n mod 10) = digit_char (m mod 10)"
        by (simp_all add: str_nat.simps [of n] str_nat.simps [of m])
      from "1.IH" [OF n e] have "n div 10 = m div 10" .
      moreover from d have "n mod 10 = m mod 10" by (simp add: digit_char_inj)
      ultimately show ?thesis by (metis div_mult_mod_eq)
    qed
  qed
qed

lemma str_nat_avoids:
  assumes "c \<notin> set ''0123456789''"
  shows "c \<notin> set (str_nat n)"
proof
  assume "c \<in> set (str_nat n)"
  then have "c \<in> set ''0123456789''" by (rule subsetD [OF str_nat_digits])
  with assms show False by (rule notE)
qed

lemma str_nat_no_minus: "CHR ''-'' \<notin> set (str_nat n)"
  by (rule str_nat_avoids) simp

lemma str_int_avoids:
  assumes "c \<notin> set ''-0123456789''"
  shows "c \<notin> set (str_int i)"
proof -
  from assms have d: "c \<notin> set ''0123456789''" and m: "c \<noteq> CHR ''-''" by simp_all
  show ?thesis
  proof (cases "i < 0")
    case True
    with m str_nat_avoids [OF d, of "nat (- i)"] show ?thesis by (simp add: str_int_def)
  next
    case False
    with str_nat_avoids [OF d, of "nat i"] show ?thesis by (simp add: str_int_def)
  qed
qed

lemma str_int_inj: "str_int i = str_int j \<Longrightarrow> i = j"
proof -
  assume e: "str_int i = str_int j"
  have hd: "\<And>n. hd (str_nat n) \<noteq> CHR ''-''"
    using str_nat_no_minus str_nat_nonempty by (metis hd_in_set)
  show "i = j"
  proof (cases "i < 0")
    case True
    note i = True
    show ?thesis
    proof (cases "j < 0")
      case True
      with i e have "nat (- i) = nat (- j)" by (simp add: str_int_def str_nat_inj)
      with i True show ?thesis by simp
    next
      case False
      with i e have "CHR ''-'' # str_nat (nat (- i)) = str_nat (nat j)" by (simp add: str_int_def)
      then have "hd (str_nat (nat j)) = CHR ''-''" by (metis list.sel(1))
      with hd show ?thesis by blast
    qed
  next
    case False
    note i = False
    show ?thesis
    proof (cases "j < 0")
      case True
      with i e have "str_nat (nat i) = CHR ''-'' # str_nat (nat (- j))" by (simp add: str_int_def)
      then have "hd (str_nat (nat i)) = CHR ''-''" by (metis list.sel(1))
      with hd show ?thesis by blast
    next
      case False
      with i e have "nat i = nat j" by (simp add: str_int_def str_nat_inj)
      with i False show ?thesis by simp
    qed
  qed
qed

lemma str_int_nonempty: "str_int i \<noteq> []"
  by (simp add: str_int_def str_nat_nonempty)

section \<open>Paths and products of the sweep\<close>

lemma split_sep_no_sep: "c \<notin> set s \<Longrightarrow> split_sep c s = [s]"
  by (induction s) auto

lemma Path_of_single:
  assumes "CHR ''/'' \<notin> set s" and "s \<noteq> []" and "s \<noteq> ''.''"
  shows "Path_of s = Path [] [s]"
proof -
  from assms(1,2) have "hd s \<noteq> CHR ''/''" by (metis hd_in_set)
  then have "splitroot s = ([], s)" by (simp add: splitroot_def)
  with assms show ?thesis by (simp add: Path_of_def split_sep_no_sep)
qed

lemma Path_of_MODEL_DIR: "Path_of MODEL_DIR = Path ''/'' [''model'']"
  by (simp add: Path_of_def MODEL_DIR_def splitroot_def)

lemma sweep_name_no_slash:
  "CHR ''/'' \<notin> set (''steps_'' @ str_int steps @ ''_rank_'' @ str_int rnk)"
proof -
  have "CHR ''/'' \<notin> set (str_int steps)" "CHR ''/'' \<notin> set (str_int rnk)"
    by (rule str_int_avoids, simp)+
  then show ?thesis by simp
qed

lemma sweep_output_dir:
  "truediv (Path_of MODEL_DIR) (''steps_'' @ str_int steps @ ''_rank_'' @ str_int rnk)
     = Path ''/'' [''model'', ''steps_'' @ str_int steps @ ''_rank_'' @ str_int rnk]"
proof -
  have "Path_of (''steps_'' @ str_int steps @ ''_rank_'' @ str_int rnk)
          = Path [] [''steps_'' @ str_int steps @ ''_rank_'' @ str_int rnk]"
    by (rule Path_of_single [OF sweep_name_no_slash]) simp_all
  then show ?thesis by (simp add: truediv_def Path_of_MODEL_DIR)
qed

lemma append_sep_eq:
  "c \<notin> set a \<Longrightarrow> c \<notin> set a' \<Longrightarrow> a @ c # b = a' @ c # b' \<Longrightarrow> a = a' \<and> b = b'"
proof (induction a arbitrary: a')
  case Nil
  then show ?case by (cases a') auto
next
  case (Cons x a)
  then show ?case by (cases a') auto
qed

lemma sweep_name_inj:
  assumes "''steps_'' @ str_int s @ ''_rank_'' @ str_int r
             = ''steps_'' @ str_int s' @ ''_rank_'' @ str_int r'"
  shows "s = s' \<and> r = r'"
proof -
  have u: "CHR ''_'' \<notin> set (str_int s)" "CHR ''_'' \<notin> set (str_int s')"
    by (rule str_int_avoids, simp)+
  from assms have "str_int s @ CHR ''_'' # (''rank_'' @ str_int r)
                     = str_int s' @ CHR ''_'' # (''rank_'' @ str_int r')" by simp
  then have "str_int s = str_int s' \<and> ''rank_'' @ str_int r = ''rank_'' @ str_int r'"
    by (rule append_sep_eq [OF u])
  then show ?thesis by (simp add: str_int_inj)
qed

lemma length_product: "length (product xs ys) = length xs * length ys"
  by (induction xs) (simp_all add: product_def)

lemma product_Cons: "product (x # xs) ys = map (\<lambda>y. (x, y)) ys @ product xs ys"
  by (simp add: product_def)

lemma nth_product:
  "i < length xs \<Longrightarrow> j < length ys \<Longrightarrow> product xs ys ! (i * length ys + j) = (xs ! i, ys ! j)"
proof (induction xs arbitrary: i)
  case Nil
  then show ?case by simp
next
  case (Cons x xs)
  show ?case
  proof (cases i)
    case 0
    with Cons.prems show ?thesis by (simp add: product_Cons nth_append)
  next
    case (Suc k)
    with Cons.prems have k: "k < length xs" by simp
    have "Suc k * length ys + j = length ys + (k * length ys + j)" by simp
    then have "product (x # xs) ys ! (Suc k * length ys + j) = product xs ys ! (k * length ys + j)"
      by (simp only: product_Cons nth_append_length_plus [of "map (\<lambda>y. (x, y)) ys", simplified])
    with Cons.IH [OF k Cons.prems(2)] Suc show ?thesis by simp
  qed
qed

lemma set_product: "set (product xs ys) = set xs \<times> set ys"
  by (induction xs) (auto simp: product_def)

lemma distinct_product: "distinct xs \<Longrightarrow> distinct ys \<Longrightarrow> distinct (product xs ys)"
proof (induction xs)
  case Nil
  then show ?case by (simp add: product_def)
next
  case (Cons x xs)
  have "distinct (map (\<lambda>y. (x, y)) ys)"
    using Cons.prems(2) by (simp add: distinct_map inj_on_def)
  moreover have "set (map (\<lambda>y. (x, y)) ys) \<inter> set (product xs ys) = {}"
    using Cons.prems(1) by (auto simp: set_product)
  ultimately show ?case using Cons by (simp add: product_Cons)
qed

lemma generate_sweep_configs_nth:
  assumes "i < length (train_steps sc)" and "j < length (ranks sc)"
  shows "generate_sweep_configs sc ! (i * length (ranks sc) + j)
           = sweep_record sc (train_steps sc ! i) (ranks sc ! j)"
proof -
  have "i * length (ranks sc) + j < length (product (train_steps sc) (ranks sc))"
  proof -
    have "i * length (ranks sc) + j < Suc i * length (ranks sc)" using assms(2) by simp
    also have "\<dots> \<le> length (train_steps sc) * length (ranks sc)"
      using assms(1) by (intro mult_le_mono1) simp
    finally show ?thesis by (simp add: length_product)
  qed
  then show ?thesis
    by (simp add: generate_sweep_configs_def nth_product [OF assms])
qed

lemma output_dirs_generate:
  "output_dirs (generate_sweep_configs sc)
     = map (\<lambda>(s, r). Some (PyPath (Path ''/'' [''model'', ''steps_'' @ str_int s @ ''_rank_'' @ str_int r])))
         (product (train_steps sc) (ranks sc))"
  by (simp add: output_dirs_def generate_sweep_configs_def sweep_record_def sweep_output_dir [simplified]
        case_prod_unfold)

lemma output_dirs_distinct_iff:
  "distinct (output_dirs (generate_sweep_configs sc))
     = distinct (product (train_steps sc) (ranks sc))"
proof -
  have "inj (\<lambda>(s, r). Some (PyPath (Path ''/'' [''model'', ''steps_'' @ str_int s @ ''_rank_'' @ str_int r])))"
    by (rule injI) (auto dest: sweep_name_inj [simplified])
  then have "inj_on (\<lambda>(s, r). Some (PyPath (Path ''/'' [''model'', ''steps_'' @ str_int s @ ''_rank_'' @ str_int r])))
               (set (product (train_steps sc) (ranks sc)))"
    by (rule inj_on_subset) simp
  then show ?thesis
    by (simp only: output_dirs_generate distinct_map simp_thms)
qed

lemma output_dirs_distinct:
  assumes "distinct (train_steps sc)" and "distinct (ranks sc)"
  shows "distinct (output_dirs (generate_sweep_configs sc))"
  using distinct_product [OF assms] by (simp only: output_dirs_distinct_iff)

lemma sweep_record_output_dir:
  "map_of (sweep_record sc steps rnk) ''output_dir''
     = Some (PyPath (Path ''/'' [''model'', ''steps_'' @ str_int steps @ ''_rank_'' @ str_int rnk]))"
  by (simp add: sweep_record_def sweep_output_dir [simplified])

lemma run_model_dir_sweep_record:
  "run_model_dir (sweep_record sc steps rnk)
     = Inr (''steps_'' @ str_int steps @ ''_rank_'' @ str_int rnk)"
  by (simp add: sweep_record_def run_model_dir_def)

section \<open>Tokens of an argument string\<close>

lemma lex_escapedstate_Ws:
  "st \<noteq> Esc \<Longrightarrow> lex st e q tok inp = lex st Ws q tok inp"
proof (induction inp arbitrary: st q tok)
  case Nil
  then show ?case by (cases st) simp_all
next
  case (Cons c inp)
  have ih: "\<And>st q tok. st \<noteq> Esc \<Longrightarrow> lex st e q tok inp = lex st Ws q tok inp"
    by (rule Cons.IH)
  from Cons.prems show ?case by (cases st) (simp_all add: ih)
qed

lemma lex_Word_Ws: "lex Word e q tok inp = lex Word Ws q tok inp"
  by (rule lex_escapedstate_Ws) simp

lemma lex_double_quoted_items:
  "list_all well_dq ds \<Longrightarrow>
     lex (Quote (CHR 0x22)) e q tok (concat (map written_dq ds) @ CHR 0x22 # r)
       = lex Word Ws True (tok @ concat (map meaning_dq ds)) r"
proof (induction ds arbitrary: e q tok)
  case Nil
  show ?case by (simp add: lex_Word_Ws [of e])
next
  case (Cons d ds)
  then have ds: "list_all well_dq ds" by simp
  show ?case
  proof (cases d)
    case (DqChar c)
    with Cons.prems have "c \<noteq> CHR 0x22" "c \<noteq> CHR 0x5C" by simp_all
    then show ?thesis
      using Cons.IH [OF ds, of e True "tok @ [c]"] DqChar by (simp add: escape_def)
  next
    case (DqEscaped c)
    show ?thesis
      using Cons.IH [OF ds, of "Quote (CHR 0x22)" True "tok @ [CHR 0x5C, c]"]
        Cons.IH [OF ds, of "Quote (CHR 0x22)" True "tok @ [c]"] DqEscaped
      by (simp add: escape_def escapedquotes_def)
  qed
qed

lemma lex_single_quoted_text:
  "list_all (\<lambda>c. c \<noteq> CHR 0x27) s \<Longrightarrow>
     lex (Quote (CHR 0x27)) e q tok (s @ CHR 0x27 # r) = lex Word Ws True (tok @ s) r"
proof (induction s arbitrary: q tok)
  case Nil
  show ?case by (simp add: lex_Word_Ws [of e])
next
  case (Cons c s)
  then show ?case by (simp add: escapedquotes_def)
qed

lemma lex_piece:
  assumes "well_piece p"
  shows "lex Word e q tok (written_piece p @ r)
           = lex Word Ws (q \<or> quoting p) (tok @ meaning_piece p) r"
proof (cases p)
  case (Bare c)
  with assms show ?thesis
    by (simp add: is_blank_char_def whitespace_def quotes_def escape_def lex_Word_Ws [of e])
next
  case (Escaped c)
  then show ?thesis
    by (simp add: whitespace_def quotes_def escape_def lex_Word_Ws [of Word])
next
  case (SingleQuoted s)
  with assms show ?thesis
    by (simp add: whitespace_def quotes_def lex_single_quoted_text)
next
  case (DoubleQuoted ds)
  with assms show ?thesis
    by (simp add: whitespace_def quotes_def lex_double_quoted_items)
qed

lemma lex_pieces:
  "list_all well_piece w \<Longrightarrow>
     lex Word e q tok (written_word w @ r)
       = lex Word Ws (q \<or> list_ex quoting w) (tok @ meaning_word w) r"
proof (induction w arbitrary: e q tok)
  case Nil
  show ?case by (simp add: written_word_def meaning_word_def lex_Word_Ws [of e])
next
  case (Cons p w)
  then have p: "well_piece p" and w: "list_all well_piece w" by simp_all
  have "lex Word e q tok (written_piece p @ written_word w @ r)
          = lex Word Ws (q \<or> quoting p) (tok @ meaning_piece p) (written_word w @ r)"
    using p by (rule lex_piece)
  also have "\<dots> = lex Word Ws ((q \<or> quoting p) \<or> list_ex quoting w)
                      ((tok @ meaning_piece p) @ meaning_word w) r"
    using w by (rule Cons.IH)
  finally show ?case by (simp add: written_word_def meaning_word_def)
qed

lemma lex_Ws_start:
  "c \<notin> whitespace \<Longrightarrow> lex Ws e q [] (c # r) = lex Word e q [] (c # r)"
  by (simp add: quotes_def escape_def)

lemma written_word_start:
  assumes "well_word w"
  obtains c s where "written_word w = c # s" and "c \<notin> whitespace"
proof -
  from assms obtain p w' where w: "w = p # w'" and p: "well_piece p"
    by (cases w) (auto simp: well_word_def)
  show ?thesis
  proof (cases p)
    case (Bare c)
    with p w that [of c "written_word w'"] show ?thesis
      by (simp add: written_word_def is_blank_char_def whitespace_def)
  next
    case (Escaped c)
    with w that [of "CHR 0x5C" "c # written_word w'"] show ?thesis
      by (simp add: written_word_def whitespace_def)
  next
    case (SingleQuoted s)
    with w that [of "CHR 0x27" "s @ CHR 0x27 # written_word w'"] show ?thesis
      by (simp add: written_word_def whitespace_def)
  next
    case (DoubleQuoted ds)
    with w that [of "CHR 0x22" "concat (map written_dq ds) @ CHR 0x22 # written_word w'"]
    show ?thesis
      by (simp add: written_word_def whitespace_def)
  qed
qed

lemma word_emits:
  assumes "well_word w"
  shows "meaning_word w \<noteq> [] \<or> list_ex quoting w"
proof -
  from assms obtain p w' where w: "w = p # w'" by (cases w) (auto simp: well_word_def)
  show ?thesis by (cases p) (simp_all add: w meaning_word_def)
qed

lemma lex_word:
  assumes "well_word w"
  shows "lex Ws Ws False [] (written_word w @ r)
           = lex Word Ws (list_ex quoting w) (meaning_word w) r"
proof -
  from assms obtain c s where cs: "written_word w = c # s" and c: "c \<notin> whitespace"
    by (rule written_word_start)
  have "lex Ws Ws False [] (written_word w @ r) = lex Word Ws False [] (written_word w @ r)"
    unfolding cs append_Cons by (rule lex_Ws_start [OF c])
  also have "\<dots> = lex Word Ws (False \<or> list_ex quoting w) ([] @ meaning_word w) r"
    using assms by (intro lex_pieces) (simp add: well_word_def)
  finally show ?thesis by simp
qed

lemma lex_skip_blanks:
  "list_all is_blank_char b \<Longrightarrow> lex Ws e False [] (b @ r) = lex Ws e False [] r"
  by (induction b) (simp_all add: is_blank_char_def whitespace_def)

lemma lex_word_end:
  assumes "tok \<noteq> [] \<or> q" and "list_all is_blank_char b"
  shows "lex Word e q tok b = Inr [tok]"
proof (cases b)
  case Nil
  with assms show ?thesis by auto
next
  case (Cons c b')
  with assms have c: "c \<in> whitespace" and b': "list_all is_blank_char b'"
    by (simp_all add: is_blank_char_def whitespace_def)
  have "lex Ws Ws False [] (b' @ []) = lex Ws Ws False [] []"
    using b' by (rule lex_skip_blanks)
  with c assms(1) Cons show ?thesis by auto
qed

lemma lex_word_blanks:
  assumes "tok \<noteq> [] \<or> q" and "b \<noteq> []" and "list_all is_blank_char b"
  shows "lex Word e q tok (b @ r) = emit tok (lex Ws Ws False [] r)"
proof -
  from assms obtain c b' where b: "b = c # b'" and c: "c \<in> whitespace"
    and b': "list_all is_blank_char b'"
    by (cases b) (simp_all add: is_blank_char_def whitespace_def)
  have "lex Ws Ws False [] (b' @ r) = lex Ws Ws False [] r"
    using b' by (rule lex_skip_blanks)
  with c assms(1) b show ?thesis by auto
qed

lemma lex_line:
  "well_line l \<Longrightarrow> lex Ws Ws False [] (written_line l) = Inr (map (\<lambda>wb. meaning_word (fst wb)) l)"
proof (induction l rule: well_line.induct)
  case 1
  show ?case by simp
next
  case (2 w b)
  then have w: "well_word w" and b: "list_all is_blank_char b" by simp_all
  have "lex Ws Ws False [] (written_word w @ b) = lex Word Ws (list_ex quoting w) (meaning_word w) b"
    using w by (rule lex_word)
  also have "\<dots> = Inr [meaning_word w]"
    using word_emits [OF w] b by (rule lex_word_end)
  finally show ?case by simp
next
  case (3 w b x rest)
  then have w: "well_word w" and n: "b \<noteq> []" and b: "list_all is_blank_char b"
    and r: "well_line (x # rest)" by simp_all
  have "lex Ws Ws False [] (written_word w @ b @ written_line (x # rest))
          = lex Word Ws (list_ex quoting w) (meaning_word w) (b @ written_line (x # rest))"
    using w by (rule lex_word)
  also have "\<dots> = emit (meaning_word w) (lex Ws Ws False [] (written_line (x # rest)))"
    using word_emits [OF w] n b by (rule lex_word_blanks)
  finally show ?case using "3.IH" [OF r] by simp
qed

lemma shlex_split_line:
  assumes "list_all is_blank_char lead" and "well_line l"
  shows "shlex_split (lead @ written_line l) = Inr (map (\<lambda>wb. meaning_word (fst wb)) l)"
  unfolding shlex_split_def
  using lex_skip_blanks [OF assms(1), of Ws "written_line l"] lex_line [OF assms(2)] by simp

section \<open>Writing into the file system\<close>

lemma map_of_put_in_same:
  "map_of es c = Some n \<Longrightarrow> map_of (put_in es c cs new) c = Some (put n cs new)"
  by (induction es) auto

lemma map_of_put_in_new:
  "map_of es c = None \<Longrightarrow> map_of (put_in es c [] new) c = Some new"
  by (induction es) auto

lemma map_of_put_in_other:
  "k \<noteq> c \<Longrightarrow> map_of (put_in es c cs new) k = map_of es k"
  by (induction es) auto

lemma get_Dir_Cons:
  "get root (c # cs) = Some x \<Longrightarrow>
     \<exists>es n. root = Dir es \<and> map_of es c = Some n \<and> get n cs = Some x"
  by (cases root) (auto split: option.splits)

lemma get_put_target:
  "get root names = Some (Dir es) \<Longrightarrow>
     get (put root (names @ [leaf]) new) (names @ [leaf]) = Some new"
proof (induction names arbitrary: root)
  case Nil
  then have r: "root = Dir es" by simp
  show ?case
  proof (cases "map_of es leaf")
    case None
    then show ?thesis by (simp add: r map_of_put_in_new)
  next
    case (Some n)
    then show ?thesis by (simp add: r map_of_put_in_same)
  qed
next
  case (Cons c cs)
  from get_Dir_Cons [OF Cons.prems] obtain es0 n
    where r: "root = Dir es0" and m: "map_of es0 c = Some n" and g: "get n cs = Some (Dir es)"
    by blast
  from Cons.IH [OF g] show ?case by (simp add: r map_of_put_in_same [OF m])
qed

lemma get_put_keeps_dirs:
  "get root q = Some (Dir ds) \<Longrightarrow> \<forall>x. get root tgt \<noteq> Some (Dir x) \<Longrightarrow>
     \<exists>ds'. get (put root tgt new) q = Some (Dir ds')
           \<and> (\<forall>k. map_of ds k \<noteq> None \<longrightarrow> map_of ds' k \<noteq> None)"
proof (induction q arbitrary: root tgt)
  case Nil
  then have r: "root = Dir ds" by simp
  with Nil.prems(2) obtain t ts where tgt: "tgt = t # ts" by (cases tgt) auto
  have "\<forall>k. map_of ds k \<noteq> None \<longrightarrow> map_of (put_in ds t ts new) k \<noteq> None"
    by (metis map_of_put_in_other map_of_put_in_same option.distinct(1) not_None_eq)
  then show ?case by (simp add: r tgt)
next
  case (Cons c cs)
  from get_Dir_Cons [OF Cons.prems(1)] obtain es0 n
    where r: "root = Dir es0" and m: "map_of es0 c = Some n" and g: "get n cs = Some (Dir ds)"
    by blast
  from r Cons.prems(2) obtain t ts where tgt: "tgt = t # ts" by (cases tgt) auto
  show ?case
  proof (cases "c = t")
    case True
    from Cons.prems(2) have "\<forall>x. get n ts \<noteq> Some (Dir x)"
      by (simp add: r tgt True [symmetric] m)
    from Cons.IH [OF g this] show ?thesis
      by (simp add: r tgt True [symmetric] map_of_put_in_same [OF m])
  next
    case False
    with g m show ?thesis by (simp add: r tgt map_of_put_in_other)
  qed
qed

lemma resolve_step_put:
  assumes "resolve_step root st part = Some x" and "\<forall>d. get root tgt \<noteq> Some (Dir d)"
  shows "resolve_step (put root tgt new) st part = Some x"
proof -
  from assms(1) obtain names es where st: "st = Some names"
    and g: "get root names = Some (Dir es)"
    by (auto simp: resolve_step_def split: option.splits node.splits)
  from get_put_keeps_dirs [OF g assms(2)] obtain es' where
    g': "get (put root tgt new) names = Some (Dir es')"
    and d: "\<forall>k. map_of es k \<noteq> None \<longrightarrow> map_of es' k \<noteq> None"
    by blast
  from assms(1) d show ?thesis
    by (auto simp: resolve_step_def st g g' split: option.splits if_splits)
qed

lemma foldl_resolve_step_None: "foldl (resolve_step root) None parts = None"
  by (induction parts) (simp_all add: resolve_step_def)

lemma foldl_resolve_step_put:
  assumes "\<forall>d. get root tgt \<noteq> Some (Dir d)"
  shows "foldl (resolve_step root) st parts = Some x \<Longrightarrow>
           foldl (resolve_step (put root tgt new)) st parts = Some x"
proof (induction parts arbitrary: st)
  case Nil
  then show ?case by simp
next
  case (Cons p parts)
  show ?case
  proof (cases "resolve_step root st p")
    case None
    with Cons.prems show ?thesis by (simp add: foldl_resolve_step_None)
  next
    case (Some y)
    from resolve_step_put [OF Some assms] Cons.IH [of "Some y"] Cons.prems Some
    show ?thesis by simp
  qed
qed

lemma components_nonempty: "components fs p \<noteq> []"
  by (cases p) (simp_all add: components_def split: list.splits)

lemma get_append: "get root names = Some n \<Longrightarrow> get root (names @ rest) = get n rest"
proof (induction names arbitrary: root)
  case Nil
  then show ?case by simp
next
  case (Cons c cs)
  from get_Dir_Cons [OF Cons.prems] obtain es0 m
    where "root = Dir es0" and "map_of es0 c = Some m" and "get m cs = Some n"
    by blast
  with Cons.IH [of m] show ?case by simp
qed

lemma lookup_write_file:
  assumes "write_file fs p content = Inr fs'"
  shows "lookup fs' p = Some (File content)"
proof -
  from assms obtain names es where rp: "resolve_parent fs p = Some (names, es)"
    by (auto simp: write_file_def split: option.splits)
  define leaf where "leaf = last (components fs p)"
  define root' where "root' = put (fs_root fs) (names @ [leaf]) (File content)"
  from assms rp have leaf: "is_name leaf"
    and nd: "\<forall>d. map_of es leaf \<noteq> Some (Dir d)"
    and fs': "fs' = fs \<lparr> fs_root := root' \<rparr>"
    by (auto simp: write_file_def Let_def leaf_def root'_def
          split: if_splits option.splits node.splits)
  from rp have p: "p \<noteq> []"
    and f: "foldl (resolve_step (fs_root fs)) (Some []) (butlast (components fs p)) = Some names"
    and g: "get (fs_root fs) names = Some (Dir es)"
    by (auto simp: resolve_parent_def split: if_splits option.splits node.splits)
  have "get (fs_root fs) (names @ [leaf]) = get (Dir es) [leaf]"
    using g by (rule get_append)
  with nd have cond: "\<forall>d. get (fs_root fs) (names @ [leaf]) \<noteq> Some (Dir d)"
    by (auto split: option.splits)
  have f': "foldl (resolve_step root') (Some []) (butlast (components fs p)) = Some names"
    unfolding root'_def using cond f by (rule foldl_resolve_step_put)
  have t: "get root' (names @ [leaf]) = Some (File content)"
    unfolding root'_def using g by (rule get_put_target)
  from get_put_keeps_dirs [OF g cond, of "File content"] obtain es'
    where g': "get root' names = Some (Dir es')"
    unfolding root'_def by blast
  have "get root' (names @ [leaf]) = get (Dir es') [leaf]"
    using g' by (rule get_append)
  with t have m: "map_of es' leaf = Some (File content)"
    by (auto split: option.splits)
  have c: "components fs' p = butlast (components fs p) @ [leaf]"
    using components_nonempty [of fs p] by (simp add: fs' components_def leaf_def)
  have "resolve fs' p = foldl (resolve_step root') (Some []) (components fs' p)"
    using p by (simp add: resolve_def fs')
  also have "\<dots> = resolve_step root' (Some names) leaf"
    unfolding c by (simp add: f')
  also have "\<dots> = Some (names @ [leaf])"
    using leaf by (simp add: resolve_step_def g' m is_name_def)
  finally show ?thesis by (simp add: lookup_def t fs')
qed

section \<open>Properties of the training wrapper\<close>

lemma print_lines_valid:
  "list_all utf8_valid lines \<Longrightarrow> print_lines lines tr = (Inr (), tr @ map Print lines)"
  by (induction lines arbitrary: tr) simp_all

lemma exec_subprocess_success:
  "proc cmd = Some (lines, 0) \<Longrightarrow> list_all utf8_valid lines \<Longrightarrow>
     exec_subprocess proc cmd tr = (Inr (), tr @ [Popen cmd] @ map Print lines)"
  by (simp add: exec_subprocess_def print_lines_valid)

lemma exec_subprocess_failure:
  "proc cmd = Some (lines, status) \<Longrightarrow> list_all utf8_valid lines \<Longrightarrow> status \<noteq> 0 \<Longrightarrow>
     exec_subprocess proc cmd tr =
       (Inl (CalledProcessError (RcBool True) (join_sep [CHR 0x0A] cmd)),
        tr @ [Popen cmd] @ map Print lines)"
  by (simp add: exec_subprocess_def print_lines_valid)

text \<open>
  C1. A child that exits with status 0 makes \<open>_exec_subprocess\<close> return normally. A child
  that exits with status 2 makes it raise \<open>CalledProcessError\<close> with the command lines
  joined by newlines, but the exit code the error carries is the truth value \<open>True\<close> of
  the comparison \<open>process.wait() != 0\<close>, whose integer value is 1, not the status 2.
\<close>

theorem exec_subprocess_exit_2_carries_True:
  "exec_subprocess (\<lambda>cmd. Some ([], 0)) [''sh'', ''-c'', ''exit 0''] [] =
     (Inr (), [Popen [''sh'', ''-c'', ''exit 0'']])
   \<and> exec_subprocess (\<lambda>cmd. Some ([], 2)) [''sh'', ''-c'', ''exit 2''] [] =
     (Inl (CalledProcessError (RcBool True) (''sh'' @ [CHR 0x0A] @ ''-c'' @ [CHR 0x0A] @ ''exit 2'')),
      [Popen [''sh'', ''-c'', ''exit 2'']])
   \<and> returncode_int (RcBool True) = 1
   \<and> returncode_int (RcBool True) \<noteq> 2"
  by (simp add: exec_subprocess_def)

text \<open>
  C9 (amended). When the command line can be built from the configuration, the training
  child starts, every line of its output is well-formed UTF-8 and it exits with status 0,
  \<open>train\<close> returns the configuration it was given, and the trace is: the accelerate
  configuration, the launch message, the child and its output lines, and last the commit
  of the volume.
\<close>

theorem train_success_commits_then_returns_config:
  assumes "render_items config train_cmd_items = Inr cmd"
    and "proc (cmd @ [''--report_to=wandb'']) = Some (lines, 0)"
    and "list_all utf8_valid lines"
  shows "train proc config tr =
           (Inr config,
            tr @ [WriteBasicConfig, Print ''launching dreambooth training script'',
                  Popen (cmd @ [''--report_to=wandb''])]
               @ map Print lines @ [VolumeCommit])"
  using assms
  by (simp add: train_def USE_WANDB_def exec_subprocess_success)

theorem train_success_commits_then_returns_config_witness:
  "train (\<lambda>cmd. Some ([''step 1''], 0)) [(''model_name'', PyStr ''m''), (''dataset_name'', PyStr ''d''),
       (''caption_column'', PyStr ''c''), (''output_dir'', PyStr ''o''),
       (''instance_prompt'', PyStr ''p''), (''resolution'', PyInt 5),
       (''train_batch_size'', PyInt 1), (''gradient_accumulation_steps'', PyInt 1),
       (''lr_scheduler'', PyStr ''l''), (''lr_warmup_steps'', PyInt 0),
       (''max_train_steps'', PyInt 7), (''checkpointing_steps'', PyInt 3),
       (''seed'', PyInt 0)] []
   = (Inr [(''model_name'', PyStr ''m''), (''dataset_name'', PyStr ''d''),
       (''caption_column'', PyStr ''c''), (''output_dir'', PyStr ''o''),
       (''instance_prompt'', PyStr ''p''), (''resolution'', PyInt 5),
       (''train_batch_size'', PyInt 1), (''gradient_accumulation_steps'', PyInt 1),
       (''lr_scheduler'', PyStr ''l''), (''lr_warmup_steps'', PyInt 0),
       (''max_train_steps'', PyInt 7), (''checkpointing_steps'', PyInt 3),
       (''seed'', PyInt 0)],
      [WriteBasicConfig, Print ''launching dreambooth training script'',
       Popen [''accelerate'', ''launch'', ''examples/dreambooth/train_dreambooth_flux.py'',
              ''--mixed_precision=bf16'', ''--pretrained_model_name_or_path=m'',
              ''--dataset_name=d'', ''--caption_column=c'', ''--output_dir=o'',
              ''--instance_prompt=p'', ''--resolution=5'', ''--train_batch_size=1'',
              ''--gradient_accumulation_steps=1'',
              ''--optimizer='' @ [CHR 0x27] @ ''prodigy'' @ [CHR 0x27],
              ''--learning_rate=1.'', ''--lr_scheduler=l'', ''--lr_warmup_steps=0'',
              ''--max_train_steps=7'', ''--checkpointing_steps=3'', ''--seed=0'',
              ''--report_to=wandb''],
       Print ''step 1'', VolumeCommit])"
proof -
  let ?cfg = "[(''model_name'', PyStr ''m''), (''dataset_name'', PyStr ''d''),
       (''caption_column'', PyStr ''c''), (''output_dir'', PyStr ''o''),
       (''instance_prompt'', PyStr ''p''), (''resolution'', PyInt 5),
       (''train_batch_size'', PyInt 1), (''gradient_accumulation_steps'', PyInt 1),
       (''lr_scheduler'', PyStr ''l''), (''lr_warmup_steps'', PyInt 0),
       (''max_train_steps'', PyInt 7), (''checkpointing_steps'', PyInt 3),
       (''seed'', PyInt 0)]"
  let ?cmd = "[''accelerate'', ''launch'', ''examples/dreambooth/train_dreambooth_flux.py'',
              ''--mixed_precision=bf16'', ''--pretrained_model_name_or_path=m'',
              ''--dataset_name=d'', ''--caption_column=c'', ''--output_dir=o'',
              ''--instance_prompt=p'', ''--resolution=5'', ''--train_batch_size=1'',
              ''--gradient_accumulation_steps=1'',
              ''--optimizer='' @ [CHR 0x27] @ ''prodigy'' @ [CHR 0x27],
              ''--learning_rate=1.'', ''--lr_scheduler=l'', ''--lr_warmup_steps=0'',
              ''--max_train_steps=7'', ''--checkpointing_steps=3'', ''--seed=0'']"
  have r: "render_items ?cfg train_cmd_items = Inr ?cmd"
    by (simp add: train_cmd_items_def str_int_def str_nat.simps digit_char_def)
  have p: "(\<lambda>cmd. Some ([''step 1''], 0::int)) (?cmd @ [''--report_to=wandb''])
             = Some ([''step 1''], 0)"
    by simp
  have u: "list_all utf8_valid [''step 1'']"
    by (simp add: byte_def)
  show ?thesis
    using train_success_commits_then_returns_config [OF r p u, of "[]"] by simp
qed

text \<open>
  The claim for every child that exits with status 0 fails: a child that writes the
  single byte 0xFF, which is not UTF-8, and exits with status 0 makes \<open>line.decode()\<close>
  raise, so \<open>train\<close> raises \<open>UnicodeDecodeError\<close>, returns no configuration and never
  commits the volume.
\<close>

theorem train_undecodable_output_counterexample:
  "train (\<lambda>cmd. Some ([[CHR 0xFF]], 0)) [(''model_name'', PyStr ''m''), (''dataset_name'', PyStr ''d''),
       (''caption_column'', PyStr ''c''), (''output_dir'', PyStr ''o''),
       (''instance_prompt'', PyStr ''p''), (''resolution'', PyInt 5),
       (''train_batch_size'', PyInt 1), (''gradient_accumulation_steps'', PyInt 1),
       (''lr_scheduler'', PyStr ''l''), (''lr_warmup_steps'', PyInt 0),
       (''max_train_steps'', PyInt 7), (''checkpointing_steps'', PyInt 3),
       (''seed'', PyInt 0)] []
   = (Inl UnicodeDecodeError,
      [WriteBasicConfig, Print ''launching dreambooth training script'',
       Popen [''accelerate'', ''launch'', ''examples/dreambooth/train_dreambooth_flux.py'',
              ''--mixed_precision=bf16'', ''--pretrained_model_name_or_path=m'',
              ''--dataset_name=d'', ''--caption_column=c'', ''--output_dir=o'',
              ''--instance_prompt=p'', ''--resolution=5'', ''--train_batch_size=1'',
              ''--gradient_accumulation_steps=1'',
              ''--optimizer='' @ [CHR 0x27] @ ''prodigy'' @ [CHR 0x27],
              ''--learning_rate=1.'', ''--lr_scheduler=l'', ''--lr_warmup_steps=0'',
              ''--max_train_steps=7'', ''--checkpointing_steps=3'', ''--seed=0'',
              ''--report_to=wandb'']])"
  by (simp add: train_def USE_WANDB_def exec_subprocess_def train_cmd_items_def str_int_def
        str_nat.simps digit_char_def byte_def between_def)

section \<open>Properties of the web handler\<close>

text \<open>
  C10. With no text or with the empty text, \<open>go\<close> calls inference with the first example
  prompt, which is the instance phrase; any non-empty text is passed on as it is.
\<close>

theorem go_empty_text_uses_first_example:
  "go config None = (example_prompts config ! 0, config)
   \<and> go config (Some []) = (example_prompts config ! 0, config)
   \<and> example_prompts config ! 0 = instance_phrase config
   \<and> (\<forall>s. s \<noteq> [] \<longrightarrow> go config (Some s) = (s, config))"
  by (simp add: go_def example_prompts_def)

theorem go_empty_text_uses_first_example_witness:
  "go AppConfig_default None = (''Heroicon the style'', AppConfig_default)
   \<and> go AppConfig_default (Some []) = (''Heroicon the style'', AppConfig_default)
   \<and> go AppConfig_default (Some ''a corgi'') = (''a corgi'', AppConfig_default)"
  using go_empty_text_uses_first_example [of AppConfig_default]
  by (simp add: instance_phrase_def AppConfig_default_def)

section \<open>Properties of the sweep\<close>

text \<open>
  C4 (amended). For every sweep configuration, with \<open>N\<close> step counts and \<open>M\<close> ranks,
  \<open>generate_sweep_configs\<close> returns exactly \<open>N * M\<close> mappings, and the mapping at position
  \<open>i * M + j\<close> has exactly the fourteen keys of the source, with \<open>max_train_steps\<close> and
  \<open>rank\<close> the \<open>i\<close>-th step count and the \<open>j\<close>-th rank, every other scalar entry copied
  from the sweep configuration, and \<open>output_dir\<close> the path
  \<open>/model/steps_{steps}_rank_{rank}\<close>. The \<open>output_dir\<close> entries are pairwise distinct
  exactly when the combinations of step count and rank are, so in particular when
  neither list repeats an element.
\<close>

theorem generate_sweep_configs_cartesian:
  "length (generate_sweep_configs sc) = length (train_steps sc) * length (ranks sc)
    \<and> (distinct (output_dirs (generate_sweep_configs sc))
          \<longleftrightarrow> distinct (product (train_steps sc) (ranks sc)))
    \<and> (distinct (train_steps sc) \<and> distinct (ranks sc)
          \<longrightarrow> distinct (output_dirs (generate_sweep_configs sc)))
    \<and> (\<forall>i < length (train_steps sc). \<forall>j < length (ranks sc).
          (let cfg = generate_sweep_configs sc ! (i * length (ranks sc) + j);
               steps = train_steps sc ! i;
               rnk = ranks sc ! j
           in map fst cfg =
                [''max_train_steps'', ''rank'', ''model_name'', ''instance_prompt'',
                 ''dataset_name'', ''caption_column'', ''resolution'', ''train_batch_size'',
                 ''gradient_accumulation_steps'', ''lr_scheduler'', ''lr_warmup_steps'',
                 ''checkpointing_steps'', ''seed'', ''output_dir'']
            \<and> map_of cfg ''max_train_steps'' = Some (PyInt steps)
            \<and> map_of cfg ''rank'' = Some (PyInt rnk)
            \<and> map_of cfg ''model_name'' = Some (PyStr (model_name sc))
            \<and> map_of cfg ''instance_prompt'' = Some (PyStr (instance_prompt sc))
            \<and> map_of cfg ''dataset_name'' = Some (PyStr (dataset_name sc))
            \<and> map_of cfg ''caption_column'' = Some (PyStr (caption_column sc))
            \<and> map_of cfg ''resolution'' = Some (PyInt (resolution sc))
            \<and> map_of cfg ''train_batch_size'' = Some (PyInt (train_batch_size sc))
            \<and> map_of cfg ''gradient_accumulation_steps''
                  = Some (PyInt (gradient_accumulation_steps sc))
            \<and> map_of cfg ''lr_scheduler'' = Some (PyStr (lr_scheduler sc))
            \<and> map_of cfg ''lr_warmup_steps'' = Some (PyInt (lr_warmup_steps sc))
            \<and> map_of cfg ''checkpointing_steps'' = Some (PyInt (checkpointing_steps sc))
            \<and> map_of cfg ''seed'' = Some (PyInt (seed sc))
            \<and> map_of cfg ''output_dir''
                  = Some (PyPath (Path ''/'' [''model'',
                       ''steps_'' @ str_int steps @ ''_rank_'' @ str_int rnk]))))"
proof (intro conjI allI impI)
  show "length (generate_sweep_configs sc) = length (train_steps sc) * length (ranks sc)"
    by (simp add: generate_sweep_configs_def length_product)
next
  show "distinct (output_dirs (generate_sweep_configs sc))
          \<longleftrightarrow> distinct (product (train_steps sc) (ranks sc))"
    by (rule output_dirs_distinct_iff)
next
  assume "distinct (train_steps sc) \<and> distinct (ranks sc)"
  then show "distinct (output_dirs (generate_sweep_configs sc))"
    by (simp add: output_dirs_distinct)
next
  fix i j
  assume "i < length (train_steps sc)" and "j < length (ranks sc)"
  then have "generate_sweep_configs sc ! (i * length (ranks sc) + j)
               = sweep_record sc (train_steps sc ! i) (ranks sc ! j)"
    by (rule generate_sweep_configs_nth)
  then show "let cfg = generate_sweep_configs sc ! (i * length (ranks sc) + j);
               steps = train_steps sc ! i;
               rnk = ranks sc ! j
           in map fst cfg =
                [''max_train_steps'', ''rank'', ''model_name'', ''instance_prompt'',
                 ''dataset_name'', ''caption_column'', ''resolution'', ''train_batch_size'',
                 ''gradient_accumulation_steps'', ''lr_scheduler'', ''lr_warmup_steps'',
                 ''checkpointing_steps'', ''seed'', ''output_dir'']
            \<and> map_of cfg ''max_train_steps'' = Some (PyInt steps)
            \<and> map_of cfg ''rank'' = Some (PyInt rnk)
            \<and> map_of cfg ''model_name'' = Some (PyStr (model_name sc))
            \<and> map_of cfg ''instance_prompt'' = Some (PyStr (instance_prompt sc))
            \<and> map_of cfg ''dataset_name'' = Some (PyStr (dataset_name sc))
            \<and> map_of cfg ''caption_column'' = Some (PyStr (caption_column sc))
            \<and> map_of cfg ''resolution'' = Some (PyInt (resolution sc))
            \<and> map_of cfg ''train_batch_size'' = Some (PyInt (train_batch_size sc))
            \<and> map_of cfg ''gradient_accumulation_steps''
                  = Some (PyInt (gradient_accumulation_steps sc))
            \<and> map_of cfg ''lr_scheduler'' = Some (PyStr (lr_scheduler sc))
            \<and> map_of cfg ''lr_warmup_steps'' = Some (PyInt (lr_warmup_steps sc))
            \<and> map_of cfg ''checkpointing_steps'' = Some (PyInt (checkpointing_steps sc))
            \<and> map_of cfg ''seed'' = Some (PyInt (seed sc))
            \<and> map_of cfg ''output_dir''
                  = Some (PyPath (Path ''/'' [''model'',
                       ''steps_'' @ str_int steps @ ''_rank_'' @ str_int rnk]))"
    by (simp add: sweep_record_def sweep_output_dir [simplified])
qed

theorem generate_sweep_configs_cartesian_witness:
  "distinct (train_steps (SweepConfig_default \<lparr> ranks := [8, 16] \<rparr>))
   \<and> distinct (ranks (SweepConfig_default \<lparr> ranks := [8, 16] \<rparr>))
   \<and> length (generate_sweep_configs (SweepConfig_default \<lparr> ranks := [8, 16] \<rparr>)) = 6
   \<and> distinct (output_dirs (generate_sweep_configs (SweepConfig_default \<lparr> ranks := [8, 16] \<rparr>)))
   \<and> map_of (generate_sweep_configs (SweepConfig_default \<lparr> ranks := [8, 16] \<rparr>) ! 3)
         ''max_train_steps'' = Some (PyInt 3000)
   \<and> map_of (generate_sweep_configs (SweepConfig_default \<lparr> ranks := [8, 16] \<rparr>) ! 3)
         ''rank'' = Some (PyInt 16)
   \<and> map_of (generate_sweep_configs (SweepConfig_default \<lparr> ranks := [8, 16] \<rparr>) ! 3)
         ''seed'' = Some (PyInt 0)
   \<and> map_of (generate_sweep_configs (SweepConfig_default \<lparr> ranks := [8, 16] \<rparr>) ! 3)
         ''output_dir'' = Some (PyPath (Path ''/'' [''model'', ''steps_3000_rank_16'']))"
proof -
  let ?sc = "SweepConfig_default \<lparr> ranks := [8, 16] \<rparr>"
  have d1: "distinct (train_steps ?sc)"
    by (simp add: SweepConfig_default_def)
  have d2: "distinct (ranks ?sc)"
    by (simp add: SweepConfig_default_def)
  have i1: "1 < length (train_steps ?sc)" and j1: "1 < length (ranks ?sc)"
    by (simp_all add: SweepConfig_default_def)
  have n: "str_int 3000 = ''3000''" "str_int 16 = ''16''"
    by (simp_all add: str_int_def str_nat.simps digit_char_def)
  note t = generate_sweep_configs_cartesian [of ?sc]
  from t have "length (generate_sweep_configs ?sc)
                 = length (train_steps ?sc) * length (ranks ?sc)"
    by (rule conjunct1)
  then have a: "length (generate_sweep_configs ?sc) = 6"
    by (simp add: SweepConfig_default_def)
  from t have "distinct (train_steps ?sc) \<and> distinct (ranks ?sc)
                 \<longrightarrow> distinct (output_dirs (generate_sweep_configs ?sc))"
    by (rule conjunct1 [OF conjunct2 [OF conjunct2]])
  then have b: "distinct (output_dirs (generate_sweep_configs ?sc))"
    using d1 d2 by (rule mp [OF _ conjI])
  note f = conjunct2 [OF conjunct2 [OF conjunct2 [OF t]], rule_format, OF i1 j1]
  have "1 * length (ranks ?sc) + 1 = 3" "train_steps ?sc ! 1 = 3000" "ranks ?sc ! 1 = 16"
    "seed ?sc = 0"
    by (simp_all add: SweepConfig_default_def)
  with f n have c: "map_of (generate_sweep_configs ?sc ! 3) ''max_train_steps'' = Some (PyInt 3000)
      \<and> map_of (generate_sweep_configs ?sc ! 3) ''rank'' = Some (PyInt 16)
      \<and> map_of (generate_sweep_configs ?sc ! 3) ''seed'' = Some (PyInt 0)
      \<and> map_of (generate_sweep_configs ?sc ! 3) ''output_dir''
          = Some (PyPath (Path ''/'' [''model'', ''steps_3000_rank_16'']))"
    by (simp add: Let_def numeral_3_eq_3)
  from d1 d2 a b c show ?thesis by simp
qed

text \<open>
  The claim that the \<open>output_dir\<close> entries are unique for every sweep configuration
  fails: the generator does not remove duplicates, so a step count that occurs twice
  yields the same \<open>output_dir\<close> twice.
\<close>

theorem sweep_output_dirs_repeat_counterexample:
  "\<not> distinct (output_dirs (generate_sweep_configs
        (SweepConfig_default \<lparr> train_steps := [1, 1], ranks := [1] \<rparr>)))"
  by (simp add: output_dirs_def generate_sweep_configs_def product_def)

text \<open>
  C8. For every step count and rank, the \<open>output_dir\<close> that \<open>generate_sweep_configs\<close>
  derives, rendered as a string, is the path that \<open>Model.load_model\<close> builds from the
  directory name that \<open>run\<close> derives again from the same mapping.
\<close>

theorem output_dir_agrees_with_evaluation_lookup:
  "\<exists>p d. map_of (sweep_record sc steps rnk) ''output_dir'' = Some (PyPath p)
        \<and> run_model_dir (sweep_record sc steps rnk) = Inr d
        \<and> d = ''steps_'' @ str_int steps @ ''_rank_'' @ str_int rnk
        \<and> str_path p = load_model_path d"
  by (simp add: sweep_record_output_dir run_model_dir_sweep_record str_path_def
        load_model_path_def MODEL_DIR_def)


section \<open>Properties of the folding function\<close>

lemma inference_argv_split:
  "shlex_split args = Inr tokens \<Longrightarrow>
     inference_argv args
       = Inr ([''boltz'', ''predict'', ''input.yaml'', ''--cache'', ''/models/boltz1'',
               ''--use_msa_server''] @ tokens)"
  by (simp add: inference_argv_def input_path_def models_dir_def Path_of_def splitroot_def
        str_path_def)

text \<open>
  C6. \<open>boltz1_inference\<close> splits its argument string by the quoting rules of the shell
  and appends the tokens to the fixed arguments of the predictor. The string
  \<open>--sampling_steps 10\<close> gives exactly the two tokens \<open>--sampling_steps\<close> and \<open>10\<close>. In
  general, for a string of well-formed words separated by blanks, with any blanks in
  front, the tokens are exactly the texts the words stand for: a quotation, blanks
  included, stays inside one token, also next to bare text; a backslash outside
  quotes keeps the next character; inside double quotes a backslash is dropped only
  before a double quote or a backslash.
\<close>

theorem inference_argv_tokens:
  "inference_argv ''--sampling_steps 10''
     = Inr [''boltz'', ''predict'', ''input.yaml'', ''--cache'', ''/models/boltz1'',
            ''--use_msa_server'', ''--sampling_steps'', ''10'']
   \<and> (\<forall>lead l. list_all is_blank_char lead \<and> well_line l \<longrightarrow>
          shlex_split (lead @ written_line l) = Inr (map (\<lambda>wb. meaning_word (fst wb)) l)
        \<and> inference_argv (lead @ written_line l)
            = Inr ([''boltz'', ''predict'', ''input.yaml'', ''--cache'', ''/models/boltz1'',
                    ''--use_msa_server''] @ map (\<lambda>wb. meaning_word (fst wb)) l))"
proof (intro conjI allI impI)
  have "shlex_split ''--sampling_steps 10'' = Inr [''--sampling_steps'', ''10'']"
    by (simp add: shlex_split_def whitespace_def quotes_def escape_def)
  then show "inference_argv ''--sampling_steps 10''
     = Inr [''boltz'', ''predict'', ''input.yaml'', ''--cache'', ''/models/boltz1'',
            ''--use_msa_server'', ''--sampling_steps'', ''10'']"
    by (simp add: inference_argv_split)
next
  fix lead l
  assume a: "list_all is_blank_char lead \<and> well_line l"
  then show s: "shlex_split (lead @ written_line l) = Inr (map (\<lambda>wb. meaning_word (fst wb)) l)"
    by (simp add: shlex_split_line)
  then show "inference_argv (lead @ written_line l)
            = Inr ([''boltz'', ''predict'', ''input.yaml'', ''--cache'', ''/models/boltz1'',
                    ''--use_msa_server''] @ map (\<lambda>wb. meaning_word (fst wb)) l)"
    by (rule inference_argv_split)
qed

theorem inference_argv_tokens_witness:
  "list_all is_blank_char '' ''
   \<and> well_line
        [([Bare CHR ''-'', Bare CHR ''-'', Bare CHR ''o''], ''  ''),
         ([DoubleQuoted [DqChar CHR ''m'', DqChar CHR '' '', DqEscaped CHR 0x22,
                         DqChar CHR ''d'', DqEscaped CHR ''n'']], [CHR 0x09]),
         ([Bare CHR ''a'', Escaped CHR '' '', SingleQuoted ''b c'', Bare CHR ''d''], [])]
   \<and> inference_argv
        ('' --o  '' @ [CHR 0x22] @ ''m '' @ [CHR 0x5C, CHR 0x22] @ ''d'' @ [CHR 0x5C] @ ''n''
           @ [CHR 0x22, CHR 0x09] @ ''a'' @ [CHR 0x5C] @ '' '' @ [CHR 0x27] @ ''b c''
           @ [CHR 0x27] @ ''d'')
       = Inr [''boltz'', ''predict'', ''input.yaml'', ''--cache'', ''/models/boltz1'',
              ''--use_msa_server'', ''--o'', ''m '' @ [CHR 0x22] @ ''d'' @ [CHR 0x5C] @ ''n'',
              ''a b cd'']"
proof -
  let ?l = "[([Bare CHR ''-'', Bare CHR ''-'', Bare CHR ''o''], ''  ''),
         ([DoubleQuoted [DqChar CHR ''m'', DqChar CHR '' '', DqEscaped CHR 0x22,
                         DqChar CHR ''d'', DqEscaped CHR ''n'']], [CHR 0x09]),
         ([Bare CHR ''a'', Escaped CHR '' '', SingleQuoted ''b c'', Bare CHR ''d''], [])]"
  have b: "list_all is_blank_char '' ''"
    by (simp add: is_blank_char_def)
  have w: "well_line ?l"
    by (simp add: well_word_def is_blank_char_def)
  from inference_argv_tokens have "list_all is_blank_char '' '' \<and> well_line ?l \<longrightarrow>
      inference_argv ('' '' @ written_line ?l)
        = Inr ([''boltz'', ''predict'', ''input.yaml'', ''--cache'', ''/models/boltz1'',
                ''--use_msa_server''] @ map (\<lambda>wb. meaning_word (fst wb)) ?l)"
    by blast
  with b w have "inference_argv ('' '' @ written_line ?l)
        = Inr ([''boltz'', ''predict'', ''input.yaml'', ''--cache'', ''/models/boltz1'',
                ''--use_msa_server''] @ map (\<lambda>wb. meaning_word (fst wb)) ?l)"
    by blast
  then have "inference_argv
        ('' --o  '' @ [CHR 0x22] @ ''m '' @ [CHR 0x5C, CHR 0x22] @ ''d'' @ [CHR 0x5C] @ ''n''
           @ [CHR 0x22, CHR 0x09] @ ''a'' @ [CHR 0x5C] @ '' '' @ [CHR 0x27] @ ''b c''
           @ [CHR 0x27] @ ''d'')
       = Inr [''boltz'', ''predict'', ''input.yaml'', ''--cache'', ''/models/boltz1'',
              ''--use_msa_server'', ''--o'', ''m '' @ [CHR 0x22] @ ''d'' @ [CHR 0x5C] @ ''n'',
              ''a b cd'']"
    by (simp add: written_word_def meaning_word_def)
  with b w show ?thesis by blast
qed

lemma results_dir_value: "results_dir = Inr ''boltz_results_input''"
  by code_simp

lemma input_path_str: "str_path input_path = ''input.yaml''"
  by code_simp

lemma models_dir_str: "str_path models_dir = ''/models/boltz1''"
  by code_simp

text \<open>
  C7 (amended). For every input YAML string and every argument string that
  \<open>shlex.split\<close> accepts, when \<open>input.yaml\<close> can be written and the predictor can be
  started, \<open>boltz1_inference\<close> leaves the YAML string in the file \<open>input.yaml\<close> of the
  working directory and runs the predictor once, on that file system, with exactly the
  arguments \<open>boltz predict input.yaml --cache /models/boltz1 --use_msa_server\<close> followed
  by the tokens of the argument string. When the predictor exits with a status other
  than 0, the call raises \<open>CalledProcessError\<close> with that status and that argument
  vector, and nothing is packaged or returned; when it exits with 0, the result is the
  packaging of \<open>boltz_results_input\<close>.
\<close>

theorem boltz1_inference_runs_predictor:
  assumes "write_file fs ''input.yaml'' boltz_input_yaml = Inr fs1"
    and "shlex_split args = Inr tokens"
    and "predictor ([''boltz'', ''predict'', ''input.yaml'', ''--cache'', ''/models/boltz1'',
                     ''--use_msa_server''] @ tokens) fs1 = Some (status, fs2)"
  shows "lookup fs1 ''input.yaml'' = Some (File boltz_input_yaml)
    \<and> boltz1_inference predictor zip_bytes fs boltz_input_yaml args =
           (if status \<noteq> 0
            then (Inl (PredictorError status
                         ([''boltz'', ''predict'', ''input.yaml'', ''--cache'', ''/models/boltz1'',
                           ''--use_msa_server''] @ tokens)),
                  fs2,
                  [Printed (dna @ '' predicting structure using boltz model from /models/boltz1''),
                   Ran ([''boltz'', ''predict'', ''input.yaml'', ''--cache'', ''/models/boltz1'',
                         ''--use_msa_server''] @ tokens)])
            else (package_outputs zip_bytes fs2 ''boltz_results_input'',
                  fs2,
                  [Printed (dna @ '' predicting structure using boltz model from /models/boltz1''),
                   Ran ([''boltz'', ''predict'', ''input.yaml'', ''--cache'', ''/models/boltz1'',
                         ''--use_msa_server''] @ tokens),
                   Printed (dna @ '' packaging up outputs'')]))"
proof
  show "lookup fs1 ''input.yaml'' = Some (File boltz_input_yaml)"
    using assms(1) by (rule lookup_write_file)
next
  show "boltz1_inference predictor zip_bytes fs boltz_input_yaml args =
           (if status \<noteq> 0
            then (Inl (PredictorError status
                         ([''boltz'', ''predict'', ''input.yaml'', ''--cache'', ''/models/boltz1'',
                           ''--use_msa_server''] @ tokens)),
                  fs2,
                  [Printed (dna @ '' predicting structure using boltz model from /models/boltz1''),
                   Ran ([''boltz'', ''predict'', ''input.yaml'', ''--cache'', ''/models/boltz1'',
                         ''--use_msa_server''] @ tokens)])
            else (package_outputs zip_bytes fs2 ''boltz_results_input'',
                  fs2,
                  [Printed (dna @ '' predicting structure using boltz model from /models/boltz1''),
                   Ran ([''boltz'', ''predict'', ''input.yaml'', ''--cache'', ''/models/boltz1'',
                         ''--use_msa_server''] @ tokens),
                   Printed (dna @ '' packaging up outputs'')]))"
    using assms
    by (simp add: boltz1_inference_def inference_argv_def input_path_str models_dir_str
          results_dir_value)
qed

theorem boltz1_inference_runs_predictor_witness:
  "lookup \<lparr> fs_root = Dir [(''input.yaml'', File ''version: 1'')], fs_cwd = ''/'' \<rparr> ''input.yaml''
     = Some (File ''version: 1'')
   \<and> boltz1_inference (\<lambda>argv fs. Some (2, fs)) (\<lambda>entries. [])
        \<lparr> fs_root = Dir [], fs_cwd = ''/'' \<rparr> ''version: 1'' ''--sampling_steps 10''
     = (Inl (PredictorError 2
               [''boltz'', ''predict'', ''input.yaml'', ''--cache'', ''/models/boltz1'',
                ''--use_msa_server'', ''--sampling_steps'', ''10'']),
        \<lparr> fs_root = Dir [(''input.yaml'', File ''version: 1'')], fs_cwd = ''/'' \<rparr>,
        [Printed (dna @ '' predicting structure using boltz model from /models/boltz1''),
         Ran [''boltz'', ''predict'', ''input.yaml'', ''--cache'', ''/models/boltz1'',
              ''--use_msa_server'', ''--sampling_steps'', ''10'']])"
proof -
  have w: "write_file \<lparr> fs_root = Dir [], fs_cwd = ''/'' \<rparr> ''input.yaml'' ''version: 1''
             = Inr \<lparr> fs_root = Dir [(''input.yaml'', File ''version: 1'')], fs_cwd = ''/'' \<rparr>"
    by code_simp
  have s: "shlex_split ''--sampling_steps 10'' = Inr [''--sampling_steps'', ''10'']"
    by code_simp
  show ?thesis
    using boltz1_inference_runs_predictor
      [where predictor = "\<lambda>argv fs. Some (2, fs)" and zip_bytes = "\<lambda>entries. []",
       OF w s refl]
    by simp
qed

text \<open>
  The claim for every argument string fails: for the string that is a single quote,
  \<open>shlex.split\<close> raises \<open>ValueError\<close> (no closing quotation) after \<open>input.yaml\<close> was
  written, and the predictor is never run.
\<close>

theorem boltz1_inference_unclosed_quote_counterexample:
  "boltz1_inference (\<lambda>argv fs. Some (0, fs)) (\<lambda>entries. [])
      \<lparr> fs_root = Dir [], fs_cwd = ''/'' \<rparr> ''version: 1'' [CHR 0x27]
     = (Inl (ShlexValueError NoClosingQuotation),
        \<lparr> fs_root = Dir [(''input.yaml'', File ''version: 1'')], fs_cwd = ''/'' \<rparr>,
        [])"
  by code_simp

section \<open>Properties of the entry point\<close>

lemma main_ignores_out_dir:
  "main download_model_remote boltz1_inference_remote fs force_download input args out_dir
     = main download_model_remote boltz1_inference_remote fs force_download input args out_dir'"
  by (simp add: main_def)

text \<open>
  C2. Without an input path, \<open>main\<close> raises \<open>TypeError\<close> from \<open>Path(input)\<close> right after
  the model download: the test \<open>if input is None\<close> comes two statements later, so the
  message \<open>Provide input yaml by --input\<close> is never printed.
\<close>

theorem main_without_input_raises_TypeError:
  "main (\<lambda>force. None) boltz1_inference_remote fs force_download None args out_dir
     = (Inl TypeError, fs, [dna @ '' loading model remotely''])
   \<and> ''Provide input yaml by --input''
        \<notin> set (snd (snd (main (\<lambda>force. None) boltz1_inference_remote fs force_download None
                            args out_dir)))"
  by (simp add: main_def Path_opt_def dna_def)

text \<open>
  C3. \<open>main\<close> never reads \<open>out_dir\<close>. With the input \<open>a.yaml\<close> in the working directory
  \<open>/home/u\<close> and \<open>out_dir = /out\<close>, the archive is written to
  \<open>boltz_a.yaml_result.zip\<close>, a name computed from the name of the input file, in the
  working directory, and \<open>/out\<close> stays empty.
\<close>

theorem main_writes_archive_outside_out_dir:
  "main (\<lambda>force. None) (\<lambda>yaml args. Inr ''PK'')
      \<lparr> fs_root = Dir [(''home'', Dir [(''u'', Dir [(''a.yaml'', File ''version: 1'')])]),
                        (''out'', Dir [])],
        fs_cwd = ''/home/u'' \<rparr>
      False (Some ''a.yaml'') [] ''/out''
     = (Inr (),
        \<lparr> fs_root = Dir [(''home'', Dir [(''u'', Dir [(''a.yaml'', File ''version: 1''),
                                                       (''boltz_a.yaml_result.zip'', File ''PK'')])]),
                          (''out'', Dir [])],
          fs_cwd = ''/home/u'' \<rparr>,
        [dna @ '' loading model remotely'',
         dna @ '' running boltz with input from a.yaml'',
         dna @ '' writing output to boltz_a.yaml_result.zip'',
         ''DONE! '' @ [CHR 0xF0, CHR 0x9F, CHR 0x8E, CHR 0x89]])
   \<and> lookup \<lparr> fs_root = Dir [(''home'', Dir [(''u'', Dir [(''a.yaml'', File ''version: 1''),
                                                       (''boltz_a.yaml_result.zip'', File ''PK'')])]),
                          (''out'', Dir [])],
          fs_cwd = ''/home/u'' \<rparr> ''/home/u/boltz_a.yaml_result.zip'' = Some (File ''PK'')
   \<and> lookup \<lparr> fs_root = Dir [(''home'', Dir [(''u'', Dir [(''a.yaml'', File ''version: 1''),
                                                       (''boltz_a.yaml_result.zip'', File ''PK'')])]),
                          (''out'', Dir [])],
          fs_cwd = ''/home/u'' \<rparr> ''/out'' = Some (Dir [])"
  by code_simp

end
